theory Spec2Isabelle
  imports
    Complex_Main
    "HOL-Library.Sublist"
    "HOL-Library.Char_ord"
    "HOL-Library.List_Lexorder"
    "HOL-Library.Multiset"
    "HOL-Library.AList"
begin

section \<open>Python strings\<close>

text \<open>
  A Python \<open>str\<close> is modelled as a \<open>string\<close>, one \<open>char\<close> per code point, so the
  model covers the code points below 256. Detection labels are the class names of the
  YOLO model, which are ASCII.
\<close>

text \<open>\<open>needle in hay\<close> on strings: \<open>needle\<close> occurs in \<open>hay\<close> as a contiguous block.\<close>

definition py_in :: "string \<Rightarrow> string \<Rightarrow> bool" where
  "py_in needle hay = sublist needle hay"

text \<open>
  \<open>str.lower()\<close> on one code point below 256: the letters A to Z and the Latin-1
  capitals (192 to 222 without the multiplication sign 215) move up by 32.
\<close>

definition lower_char :: "char \<Rightarrow> char" where
  "lower_char c =
     (let n = (of_char c :: nat)
      in if (65 \<le> n \<and> n \<le> 90) \<or> (192 \<le> n \<and> n \<le> 222 \<and> n \<noteq> 215)
         then char_of (n + 32) else c)"

definition lower :: "string \<Rightarrow> string" where
  "lower s = map lower_char s"

text \<open>
  \<open>s.replace(old, new)\<close>: the occurrences of \<open>old\<close> are found from the left and do not
  overlap. With an empty \<open>old\<close> Python puts \<open>new\<close> before every character and at the end.
\<close>

function replace :: "string \<Rightarrow> string \<Rightarrow> string \<Rightarrow> string" where
  "replace old new [] = (if old = [] then new else [])"
| "replace old new (c # cs) =
     (if old = [] then new @ c # replace old new cs
      else if prefix old (c # cs) then new @ replace old new (drop (length old) (c # cs))
      else c # replace old new cs)"
  by pat_completeness auto
termination
  by (relation "measure (\<lambda>(old, new, s). length s)") (auto simp: Suc_diff_le)

section \<open>Label handling of \<open>MiniFarmAI.detect\<close>\<close>

text \<open>
  \<open>extract_species_from_label\<close>: the three branches in the order of the source.
\<close>

definition extract_species_from_label :: "string \<Rightarrow> string" where
  "extract_species_from_label label =
     (let label_lower = lower label
      in if py_in ''basil'' label_lower \<or> py_in ''bail'' label_lower then ''basil''
         else if py_in ''poin'' label_lower then ''poinsettia''
         else ''unknown'')"

text \<open>
  The "Fix typos" step of the detection loop:
  \<^verbatim>\<open>if "poinsenttia" in health_label:
      health_label = health_label.replace("poinsenttia", "poinsettia")\<close>
\<close>

definition fix_typos :: "string \<Rightarrow> string" where
  "fix_typos health_label =
     (if py_in ''poinsenttia'' health_label
      then replace ''poinsenttia'' ''poinsettia'' health_label
      else health_label)"


text \<open>
  Case-insensitive substring containment, following the words of the specification and
  written without \<open>lower\<close>: the keyword (lowercase ASCII letters) occurs in the label as
  a contiguous block in which every character is the keyword's letter or its capital
  (the capital of a letter is 32 code points below it).
\<close>

definition same_letter :: "char \<Rightarrow> char \<Rightarrow> bool" where
  "same_letter c k = (c = k \<or> (of_char c :: nat) + 32 = of_char k)"

fun ci_prefix :: "string \<Rightarrow> string \<Rightarrow> bool" where
  "ci_prefix [] label = True"
| "ci_prefix (k # ks) [] = False"
| "ci_prefix (k # ks) (c # cs) = (same_letter c k \<and> ci_prefix ks cs)"

fun ci_in :: "string \<Rightarrow> string \<Rightarrow> bool" where
  "ci_in keyword [] = (keyword = [])"
| "ci_in keyword (c # cs) = (ci_prefix keyword (c # cs) \<or> ci_in keyword cs)"

definition lowercase_ascii :: "string \<Rightarrow> bool" where
  "lowercase_ascii w = (\<forall>k \<in> set w. 97 \<le> (of_char k :: nat) \<and> (of_char k :: nat) \<le> 122)"

text \<open>\<open>str(i)\<close> for a non-negative integer: its decimal digits.\<close>

definition digit_char :: "nat \<Rightarrow> char" where
  "digit_char d = char_of (48 + d)"

function str_nat :: "nat \<Rightarrow> string" where
  "str_nat n = (if n < 10 then [digit_char n] else str_nat (n div 10) @ [digit_char (n mod 10)])"
  by pat_completeness auto
termination
  by (relation "measure id") auto

declare str_nat.simps [simp del]

text \<open>
  The detection loop of \<open>detect\<close>, on the labels of the detected boxes in detection
  order (\<open>results_health[0].names[int(detections_health.cls[i])]\<close> for \<open>i\<close> in
  \<open>range(len(detections_health))\<close>). It fills the dict \<open>health_data\<close> (field \<open>loop_health_data\<close>), kept as
  an association list in insertion order, and the set \<open>unique_species_set\<close>.
\<close>

record detect_acc =
  loop_health_data :: "(string \<times> string) list"
  unique_species_set :: "string set"

fun detect_loop :: "nat \<Rightarrow> string list \<Rightarrow> detect_acc \<Rightarrow> detect_acc" where
  "detect_loop i [] acc = acc"
| "detect_loop i (raw_label # labels) acc =
     (let health_label = fix_typos raw_label;
          species = extract_species_from_label health_label
      in detect_loop (Suc i) labels
           \<lparr>loop_health_data = AList.update (str_nat i) health_label (loop_health_data acc),
            unique_species_set =
              (if species \<noteq> ''unknown'' then insert species (unique_species_set acc)
               else unique_species_set acc)\<rparr>)"

text \<open>
  \<^verbatim>\<open>species_data = {str(idx): species
                  for idx, species in enumerate(sorted(list(unique_species_set)))}\<close>
\<close>

definition species_data_of :: "string set \<Rightarrow> (string \<times> string) list" where
  "species_data_of S =
     map (\<lambda>(idx, species). (str_nat idx, species)) (enumerate 0 (sorted_list_of_set S))"

text \<open>The two maps that \<open>detect\<close> hands to \<open>_send_to_tinyiot\<close>: species first, health second.\<close>

definition detect_maps :: "string list \<Rightarrow> (string \<times> string) list \<times> (string \<times> string) list" where
  "detect_maps labels =
     (let acc = detect_loop 0 labels \<lparr>loop_health_data = [], unique_species_set = {}\<rparr>
      in (species_data_of (unique_species_set acc), loop_health_data acc))"

section \<open>Python values and exceptions\<close>

text \<open>
  The values that \<open>json.loads\<close> and \<open>Response.json()\<close> produce. \<open>JNull\<close> is Python's
  \<open>None\<close>, so it is also what a function returns on its \<open>return None\<close> paths. A dict is
  an association list with one entry per key.
\<close>

datatype json =
    JNull
  | JBool bool
  | JInt int
  | JFloat real
  | JStr string
  | JArr "json list"
  | JObj "(string \<times> json) list"

datatype py_exception =
    Timeout
  | JSONDecodeError
  | AttributeError
  | TypeError
  | RequestException

text \<open>Truth value of an object, as \<open>if not x\<close> tests it.\<close>

fun truthy :: "json \<Rightarrow> bool" where
  "truthy JNull = False"
| "truthy (JBool b) = b"
| "truthy (JInt n) = (n \<noteq> 0)"
| "truthy (JFloat x) = (x \<noteq> 0)"
| "truthy (JStr s) = (s \<noteq> [])"
| "truthy (JArr xs) = (xs \<noteq> [])"
| "truthy (JObj kvs) = (kvs \<noteq> [])"

fun is_dict :: "json \<Rightarrow> bool" where
  "is_dict (JObj kvs) = True"
| "is_dict _ = False"

text \<open>\<open>x.get(key, default)\<close>: only a dict has the method.\<close>

definition lookup_or :: "(string \<times> json) list \<Rightarrow> string \<Rightarrow> json \<Rightarrow> json" where
  "lookup_or kvs key dflt = (case map_of kvs key of None \<Rightarrow> dflt | Some v \<Rightarrow> v)"

fun dict_get :: "json \<Rightarrow> string \<Rightarrow> json \<Rightarrow> py_exception + json" where
  "dict_get (JObj kvs) key dflt = Inr (lookup_or kvs key dflt)"
| "dict_get _ key dflt = Inl AttributeError"

text \<open>
  \<open>json.loads(x)\<close>. The parser of a string is the library's and is a parameter
  (\<open>Inl JSONDecodeError\<close> on text that is not JSON); on an object that is no string
  \<open>json.loads\<close> raises TypeError.
\<close>

fun json_loads :: "(string \<Rightarrow> py_exception + json) \<Rightarrow> json \<Rightarrow> py_exception + json" where
  "json_loads parse (JStr s) = parse s"
| "json_loads parse _ = Inl TypeError"

text \<open>
  A value inside an f-string. A string stands for itself and \<open>None\<close> prints as \<open>None\<close>;
  the text of the other values is Python's \<open>str\<close>, a parameter.
\<close>

fun format_value :: "(json \<Rightarrow> string) \<Rightarrow> json \<Rightarrow> string" where
  "format_value py_str (JStr s) = s"
| "format_value py_str JNull = ''None''"
| "format_value py_str v = py_str v"

section \<open>Configuration constants\<close>

definition TINYIOT_URL :: string where
  "TINYIOT_URL = ''http://YOUR_SERVER_IP:3000''"

definition AE_NAME :: string where
  "AE_NAME = ''TinyFarm''"

definition RASPI_ORIGIN :: string where
  "RASPI_ORIGIN = ''SRaspberryPi_AI''"

definition TARGET_HOURS :: "int list" where
  "TARGET_HOURS = map int [0..<24]"

section \<open>oneM2M GET: \<open>get_latest_cin_json\<close>\<close>

type_synonym headers = "(string \<times> string) list"

record http_request =
  url :: string
  headers :: headers
  json_payload :: "json option"
  timeout :: nat

text \<open>
  What \<open>requests.get\<close> and \<open>requests.post\<close> do: raise, or return a response with its
  status code and the outcome of \<open>r.json()\<close>.
\<close>

datatype http_result =
    Raised py_exception
  | Response int "py_exception + json"

text \<open>The request of \<open>get_latest_cin_json\<close>: the URL, the headers and \<open>timeout=5\<close>.\<close>

definition get_request :: "string \<Rightarrow> string \<Rightarrow> http_request" where
  "get_request container_url origin =
     \<lparr>url = container_url @ ''/la'',
      headers = [(''X-M2M-Origin'', origin), (''X-M2M-RVI'', ''2a''),
                 (''Accept'', ''application/json'')],
      json_payload = None,
      timeout = 5\<rparr>"

text \<open>The \<open>try\<close> block of \<open>get_latest_cin_json\<close>; \<open>Inl\<close> is an exception on its way out.\<close>

definition get_latest_cin_json_try ::
  "(string \<Rightarrow> py_exception + json) \<Rightarrow> http_result \<Rightarrow> py_exception + json" where
  "get_latest_cin_json_try parse r =
     (case r of
        Raised e \<Rightarrow> Inl e
      | Response status_code r_json \<Rightarrow>
          if status_code = 200 then
            (case r_json of
               Inl e \<Rightarrow> Inl e
             | Inr body \<Rightarrow>
                 (case dict_get body ''m2m:cin'' (JObj []) of
                    Inl e \<Rightarrow> Inl e
                  | Inr cin_data \<Rightarrow>
                      (case dict_get cin_data ''con'' JNull of
                         Inl e \<Rightarrow> Inl e
                       | Inr json_content \<Rightarrow>
                           if \<not> truthy json_content then Inr JNull
                           else if is_dict json_content then Inr json_content
                           else json_loads parse json_content)))
          else if status_code = 403 then Inr JNull
          else if status_code = 404 then Inr JNull
          else Inr JNull)"

text \<open>The three \<open>except\<close> clauses, in the order of the source.\<close>

fun get_latest_cin_json_except :: "py_exception \<Rightarrow> json" where
  "get_latest_cin_json_except Timeout = JNull"
| "get_latest_cin_json_except JSONDecodeError = JNull"
| "get_latest_cin_json_except _ = JNull"

definition get_latest_cin_json ::
  "(string \<Rightarrow> py_exception + json) \<Rightarrow> (http_request \<Rightarrow> http_result) \<Rightarrow> string \<Rightarrow> string \<Rightarrow> json" where
  "get_latest_cin_json parse http_get container_url origin =
     (case get_latest_cin_json_try parse (http_get (get_request container_url origin)) of
        Inl e \<Rightarrow> get_latest_cin_json_except e
      | Inr v \<Rightarrow> v)"

section \<open>Config resolution: \<open>MiniFarmAI._load_config_from_cse\<close>\<close>

text \<open>
  The part of the \<open>try\<close> block after the two deployment reads. The server answers the
  four reads through \<open>http_get\<close>, indexed by the position of the read (0 and 1 the
  species and health deployment, 2 and 3 the species and health model), so that every
  combination of outcomes is covered.
\<close>

definition load_models ::
  "(json \<Rightarrow> string) \<Rightarrow> (string \<Rightarrow> py_exception + json) \<Rightarrow> (nat \<Rightarrow> http_request \<Rightarrow> http_result)
     \<Rightarrow> json \<Rightarrow> json \<Rightarrow> py_exception + json" where
  "load_models py_str parse http_get deploy_species_data deploy_health_data =
     (case dict_get deploy_species_data ''modelID'' JNull of
        Inl e \<Rightarrow> Inl e
      | Inr model_species_id_path \<Rightarrow>
     (case dict_get deploy_health_data ''modelID'' JNull of
        Inl e \<Rightarrow> Inl e
      | Inr model_health_id_path \<Rightarrow>
     (let model_species_data =
            get_latest_cin_json parse (http_get 2)
              (TINYIOT_URL @ format_value py_str model_species_id_path) RASPI_ORIGIN;
          model_health_data =
            get_latest_cin_json parse (http_get 3)
              (TINYIOT_URL @ format_value py_str model_health_id_path) RASPI_ORIGIN
      in if \<not> truthy model_species_data \<or> \<not> truthy model_health_data then Inr JNull
         else
     (case dict_get model_species_data ''mlModelPath'' JNull of
        Inl e \<Rightarrow> Inl e
      | Inr model_species_path \<Rightarrow>
     (case dict_get model_health_data ''mlModelPath'' JNull of
        Inl e \<Rightarrow> Inl e
      | Inr model_health_path \<Rightarrow>
     (case dict_get deploy_species_data ''outputResource'' JNull of
        Inl e \<Rightarrow> Inl e
      | Inr output_species \<Rightarrow>
     (case dict_get deploy_health_data ''outputResource'' JNull of
        Inl e \<Rightarrow> Inl e
      | Inr output_health \<Rightarrow>
          Inr (JObj
            [(''model_species_path'', model_species_path),
             (''model_health_path'', model_health_path),
             (''output_species'', output_species),
             (''output_health'', output_health),
             (''url_species'', JStr (TINYIOT_URL @ format_value py_str output_species)),
             (''url_health'', JStr (TINYIOT_URL @ format_value py_str output_health))]))))))))"

definition load_config_from_cse ::
  "(json \<Rightarrow> string) \<Rightarrow> (string \<Rightarrow> py_exception + json) \<Rightarrow> (nat \<Rightarrow> http_request \<Rightarrow> http_result) \<Rightarrow> json" where
  "load_config_from_cse py_str parse http_get =
     (let deploy_list_path = TINYIOT_URL @ ''/TinyIoT/'' @ AE_NAME @ ''/modelDeploymentList'';
          deploy_species_data =
            get_latest_cin_json parse (http_get 0)
              (deploy_list_path @ ''/modelDeploy_species'') RASPI_ORIGIN
      in if \<not> truthy deploy_species_data then JNull
         else
           let deploy_health_data =
                 get_latest_cin_json parse (http_get 1)
                   (deploy_list_path @ ''/modelDeploy_healthy'') RASPI_ORIGIN
           in if \<not> truthy deploy_health_data then JNull
              else (case load_models py_str parse http_get deploy_species_data deploy_health_data of
                      Inl e \<Rightarrow> JNull
                    | Inr config \<Rightarrow> config))"

section \<open>Scheduler: the loop of \<open>MiniFarmAI.run\<close>\<close>

text \<open>
  The state of the loop is \<open>last_detection_hour\<close> (\<open>-1\<close> when no hour is remembered);
  \<open>cycles\<close> counts the calls of \<open>detect\<close> and is not a variable of the program.
  \<open>detect\<close> catches every exception, so the assignment after it always runs.
\<close>

record sched =
  last_detection_hour :: int
  cycles :: nat

text \<open>One iteration of the \<open>while True\<close> loop, with the hour it reads from the clock.\<close>

definition tick :: "int list \<Rightarrow> int \<Rightarrow> sched \<Rightarrow> sched" where
  "tick target_hours current_hour st =
     (if current_hour \<in> set target_hours \<and> current_hour \<noteq> last_detection_hour st
      then \<lparr>last_detection_hour = current_hour, cycles = Suc (cycles st)\<rparr>
      else if current_hour \<noteq> last_detection_hour st
           then st\<lparr>last_detection_hour := - 1\<rparr>
           else st)"

fun run_ticks :: "int list \<Rightarrow> int list \<Rightarrow> sched \<Rightarrow> sched" where
  "run_ticks target_hours [] st = st"
| "run_ticks target_hours (h # hs) st = run_ticks target_hours hs (tick target_hours h st)"

text \<open>The state after \<open>__init__\<close>.\<close>

definition sched_init :: sched where
  "sched_init = \<lparr>last_detection_hour = - 1, cycles = 0\<rparr>"

section \<open>Upload: \<open>MiniFarmAI._send_to_tinyiot\<close>\<close>

text \<open>
  \<open>json.dumps\<close> with its defaults (\<open>ensure_ascii\<close>, separators \<open>", "\<close> and \<open>": "\<close>) on
  the one shape it is called with: a dict with the string \<open>timestamp\<close> and the dict
  \<open>data\<close> from strings to strings.
\<close>

definition hex_digit :: "nat \<Rightarrow> char" where
  "hex_digit d = (if d < 10 then char_of (48 + d) else char_of (87 + d))"

definition dumps_char :: "char \<Rightarrow> string" where
  "dumps_char c =
     (let n = (of_char c :: nat)
      in if n = 34 then [CHR 0x5C, CHR 0x22]
         else if n = 92 then [CHR 0x5C, CHR 0x5C]
         else if n = 10 then [CHR 0x5C, CHR ''n'']
         else if n = 13 then [CHR 0x5C, CHR ''r'']
         else if n = 9 then [CHR 0x5C, CHR ''t'']
         else if n = 8 then [CHR 0x5C, CHR ''b'']
         else if n = 12 then [CHR 0x5C, CHR ''f'']
         else if 32 \<le> n \<and> n \<le> 126 then [c]
         else [CHR 0x5C, CHR ''u'', CHR ''0'', CHR ''0'', hex_digit (n div 16), hex_digit (n mod 16)])"

definition dumps_str :: "string \<Rightarrow> string" where
  "dumps_str s = [CHR 0x22] @ concat (map dumps_char s) @ [CHR 0x22]"

fun join :: "string \<Rightarrow> string list \<Rightarrow> string" where
  "join sep [] = []"
| "join sep [x] = x"
| "join sep (x # y # zs) = x @ sep @ join sep (y # zs)"

definition dumps_dict :: "(string \<times> string) list \<Rightarrow> string" where
  "dumps_dict d = ''{'' @ join '', '' (map (\<lambda>(k, v). dumps_str k @ '': '' @ dumps_str v) d) @ ''}''"

definition dumps_envelope :: "string \<Rightarrow> (string \<times> string) list \<Rightarrow> string" where
  "dumps_envelope timestamp_str data =
     ''{'' @ dumps_str ''timestamp'' @ '': '' @ dumps_str timestamp_str @ '', ''
          @ dumps_str ''data'' @ '': '' @ dumps_dict data @ ''}''"

text \<open>
  What the call reads from its surroundings: the two URLs of \<open>self.config\<close>, the
  formatted \<open>datetime.now()\<close>, and \<open>str(time.time())\<close>, \<open>str(time.time() + 1)\<close> for the
  two request identifiers.
\<close>

record upload_env =
  url_species :: string
  url_health :: string
  timestamp :: string
  time_species :: string
  time_health :: string

datatype track = Species | Health

text \<open>
  The state threaded through the two blocks: \<open>all_success\<close> and the POSTs issued so
  far, in order (the trace is what the server sees, not a variable of the program).
\<close>

record upload_state =
  all_success :: bool
  posts :: "(track \<times> http_request) list"

definition cin_payload :: "string \<Rightarrow> json" where
  "cin_payload json_string =
     JObj [(''m2m:cin'', JObj [(''con'', JStr ''data''), (''lbl'', JArr [JStr json_string])])]"

definition base_headers :: "upload_env \<Rightarrow> headers" where
  "base_headers env =
     [(''X-M2M-Origin'', RASPI_ORIGIN),
      (''X-M2M-RVI'', ''2a''),
      (''Accept'', ''application/json''),
      (''Content-Type'', ''application/json; ty=4''),
      (''X-M2M-RI'', ''create_cin_'' @ time_species env)]"

definition species_request :: "upload_env \<Rightarrow> (string \<times> string) list \<Rightarrow> http_request" where
  "species_request env species_data =
     \<lparr>url = url_species env,
      headers = base_headers env,
      json_payload = Some (cin_payload (dumps_envelope (timestamp env) species_data)),
      timeout = 10\<rparr>"

definition health_request :: "upload_env \<Rightarrow> (string \<times> string) list \<Rightarrow> http_request" where
  "health_request env health_data =
     \<lparr>url = url_health env,
      headers = AList.update ''X-M2M-RI'' (''create_cin_'' @ time_health env) (base_headers env),
      json_payload = Some (cin_payload (dumps_envelope (timestamp env) health_data)),
      timeout = 10\<rparr>"

text \<open>One \<open>try\<close>/\<open>except\<close> around a POST: 201 keeps \<open>all_success\<close>, anything else clears it.\<close>

definition post_track ::
  "(track \<Rightarrow> http_request \<Rightarrow> http_result) \<Rightarrow> track \<Rightarrow> http_request \<Rightarrow> upload_state \<Rightarrow> upload_state" where
  "post_track http_post t request st =
     (case http_post t request of
        Response status_code r_json \<Rightarrow>
          if status_code = 201 then st\<lparr>posts := posts st @ [(t, request)]\<rparr>
          else \<lparr>all_success = False, posts = posts st @ [(t, request)]\<rparr>
      | Raised e \<Rightarrow> \<lparr>all_success = False, posts = posts st @ [(t, request)]\<rparr>)"

definition send_to_tinyiot ::
  "upload_env \<Rightarrow> (track \<Rightarrow> http_request \<Rightarrow> http_result)
     \<Rightarrow> (string \<times> string) list \<Rightarrow> (string \<times> string) list \<Rightarrow> upload_state" where
  "send_to_tinyiot env http_post species_data health_data =
     (let st0 = \<lparr>all_success = True, posts = []\<rparr>;
          st1 = (if species_data \<noteq> []
                 then post_track http_post Species (species_request env species_data) st0
                 else st0);
          st2 = (if health_data \<noteq> []
                 then post_track http_post Health (health_request env health_data) st1
                 else st1)
      in st2)"

text \<open>
  The records that exist on the server after the call: a POST creates one exactly when
  it is answered with 201 (Created).
\<close>

definition created ::
  "(track \<Rightarrow> http_request \<Rightarrow> http_result) \<Rightarrow> (track \<times> http_request) list \<Rightarrow> (track \<times> http_request) list" where
  "created http_post trace =
     filter (\<lambda>(t, request). case http_post t request of
                               Response status_code r_json \<Rightarrow> status_code = 201
                             | Raised e \<Rightarrow> False) trace"

section \<open>An example server\<close>

text \<open>
  A server that answers the four reads of the config resolution with the model paths
  and resources that \<open>setup_resources.py\<close> provisions; the health model record carries
  its content as a JSON string, the others as a dict. \<open>example_parse\<close> is \<open>json.loads\<close>
  on that one string.
\<close>

definition cin_response :: "json \<Rightarrow> http_result" where
  "cin_response con = Response 200 (Inr (JObj [(''m2m:cin'', JObj [(''con'', con)])]))"

definition example_parse :: "string \<Rightarrow> py_exception + json" where
  "example_parse s =
     (if s = ''{\"mlModelPath\": \"/home/seslab/minifarm/last.pt\"}''
      then Inr (JObj [(''mlModelPath'', JStr ''/home/seslab/minifarm/last.pt'')])
      else Inl JSONDecodeError)"

definition example_server :: "nat \<Rightarrow> http_request \<Rightarrow> http_result" where
  "example_server i request =
     (if i = 0 then
        cin_response (JObj [(''modelID'', JStr ''/TinyIoT/modelRepo/mlModel-species''),
                            (''outputResource'', JStr ''/TinyIoT/TinyFarm/inference/species'')])
      else if i = 1 then
        cin_response (JObj [(''modelID'', JStr ''/TinyIoT/modelRepo/mlModel-health''),
                            (''outputResource'', JStr ''/TinyIoT/TinyFarm/inference/health'')])
      else if i = 2 then
        cin_response (JObj [(''mlModelPath'', JStr ''/home/seslab/minifarm/best.pt'')])
      else
        cin_response (JStr ''{\"mlModelPath\": \"/home/seslab/minifarm/last.pt\"}''))"



text \<open>
  The fields \<open>con\<close> (content) and \<open>lbl\<close> (labels) of the \<open>m2m:cin\<close> object in the JSON
  body of a request, \<open>None\<close> where there is none.
\<close>

definition cin_field :: "string \<Rightarrow> http_request \<Rightarrow> json" where
  "cin_field key request =
     (case json_payload request of
        Some (JObj body) \<Rightarrow>
          (case map_of body ''m2m:cin'' of
             Some (JObj cin) \<Rightarrow> lookup_or cin key JNull
           | _ \<Rightarrow> JNull)
      | _ \<Rightarrow> JNull)"

text \<open>An upload at a fixed time, and a server that creates species records and fails on health.\<close>

definition example_env :: upload_env where
  "example_env =
     \<lparr>url_species = ''http://YOUR_SERVER_IP:3000/TinyIoT/TinyFarm/inference/species'',
      url_health = ''http://YOUR_SERVER_IP:3000/TinyIoT/TinyFarm/inference/health'',
      timestamp = ''2024-05-01 09:00:00'',
      time_species = ''1714554000.25'',
      time_health = ''1714554001.25''\<rparr>"

definition example_post :: "track \<Rightarrow> http_request \<Rightarrow> http_result" where
  "example_post t request =
     (case t of Species \<Rightarrow> Response 201 (Inr JNull) | Health \<Rightarrow> Response 500 (Inr JNull))"

section \<open>Species keywords\<close>

text \<open>
  Claim C9. Basil has precedence: a label whose lowercased form contains a basil keyword
  (\<open>basil\<close> or \<open>bail\<close>) together with the poinsettia keyword \<open>poin\<close> is classified as
  \<open>basil\<close>, and \<open>poinsettia\<close> is returned only when no basil keyword is present.
\<close>

theorem basil_precedence:
  "((py_in ''basil'' (lower label) \<or> py_in ''bail'' (lower label)) \<and> py_in ''poin'' (lower label)
      \<longrightarrow> extract_species_from_label label = ''basil'')
   \<and> (extract_species_from_label label = ''poinsettia''
      \<longrightarrow> \<not> py_in ''basil'' (lower label) \<and> \<not> py_in ''bail'' (lower label)
          \<and> py_in ''poin'' (lower label))"
  by (simp add: extract_species_from_label_def Let_def)

theorem basil_precedence_witness:
  "((py_in ''basil'' (lower ''Basil_POIN'') \<or> py_in ''bail'' (lower ''Basil_POIN''))
      \<and> py_in ''poin'' (lower ''Basil_POIN''))
   \<and> extract_species_from_label ''Basil_POIN'' = ''basil''
   \<and> extract_species_from_label ''poin_healthy'' = ''poinsettia''
   \<and> \<not> py_in ''basil'' (lower ''poin_healthy'') \<and> \<not> py_in ''bail'' (lower ''poin_healthy'')
   \<and> py_in ''poin'' (lower ''poin_healthy'')"
proof -
  have l1: "lower ''Basil_POIN'' = ''basil_poin''"
    by code_simp
  have b: "py_in ''basil'' ''basil_poin''" and p: "py_in ''poin'' ''basil_poin''"
    by code_simp+
  have e: "extract_species_from_label ''poin_healthy'' = ''poinsettia''"
    by code_simp
  show ?thesis
    using basil_precedence [of "''Basil_POIN''"] basil_precedence [of "''poin_healthy''"] l1 b p e
    by simp
qed

section \<open>Label correction\<close>

lemma replace_match:
  "old \<noteq> [] \<Longrightarrow> prefix old (c # cs) \<Longrightarrow>
   replace old new (c # cs) = new @ replace old new (drop (length old) (c # cs))"
  by simp

lemma replace_no_match:
  "old \<noteq> [] \<Longrightarrow> \<not> prefix old (c # cs) \<Longrightarrow>
   replace old new (c # cs) = c # replace old new cs"
  by simp

lemma replace_Nil: "old \<noteq> [] \<Longrightarrow> replace old new [] = []"
  by simp

lemma prefix_replace_imp_prefix:
  assumes "old = p # old'" and "new = p # new'" and "p \<notin> set u"
    and "prefix u (replace old new s)"
  shows "prefix u s"
  using assms
proof (induction old new s arbitrary: u rule: replace.induct)
  case (1 old new)
  then show ?case by (simp del: replace.simps add: replace_Nil)
next
  case (2 old new c cs)
  have ne: "old \<noteq> []" using "2.prems"(1) by simp
  show ?case
  proof (cases "prefix old (c # cs)")
    case True
    then have "replace old new (c # cs) = new @ replace old new (drop (length old) (c # cs))"
      using ne by (rule replace_match[rotated])
    with "2.prems" have "prefix u (p # new' @ replace old new (drop (length old) (c # cs)))"
      by (simp del: replace.simps)
    with "2.prems"(3) have "u = []" by (cases u) auto
    then show ?thesis by simp
  next
    case False
    then have eq: "replace old new (c # cs) = c # replace old new cs"
      using ne by (rule replace_no_match[rotated])
    show ?thesis
    proof (cases u)
      case Nil
      then show ?thesis by simp
    next
      case (Cons a u')
      with "2.prems"(4) eq have a: "a = c" and pu: "prefix u' (replace old new cs)"
        by (simp_all del: replace.simps)
      from "2.prems"(3) Cons have "p \<notin> set u'" by simp
      from "2.IH"(3)[OF ne False "2.prems"(1,2) this pu] have "prefix u' cs" .
      with a Cons show ?thesis by simp
    qed
  qed
qed

lemma sublist_skip_no_head:
  "p \<notin> set w \<Longrightarrow> sublist (p # old') (w @ t) = sublist (p # old') t"
  by (induction w) (auto simp: sublist_Cons_right)

lemma not_sublist_replace:
  assumes "old = p # old'" and "new = p # new'" and "p \<notin> set old'" and "p \<notin> set new'"
    and "\<not> prefix old new" and "\<not> prefix new old"
  shows "\<not> sublist old (replace old new s)"
  using assms
proof (induction old new s rule: replace.induct)
  case (1 old new)
  then show ?case by (simp del: replace.simps add: replace_Nil)
next
  case (2 old new c cs)
  have ne: "old \<noteq> []" using "2.prems"(1) by simp
  show ?case
  proof (cases "prefix old (c # cs)")
    case True
    let ?t = "replace old new (drop (length old) (c # cs))"
    have eq: "replace old new (c # cs) = new @ ?t"
      using True ne by (rule replace_match[rotated])
    have ih: "\<not> sublist old ?t"
      using "2.IH"(2)[OF ne True "2.prems"] .
    have np: "\<not> prefix old (new @ ?t)"
      using "2.prems"(5,6) by (auto simp: prefix_append)
    have "sublist old (new @ ?t) = (prefix old (new @ ?t) \<or> sublist old (new' @ ?t))"
      using "2.prems"(2) by (simp add: sublist_Cons_right)
    also have "sublist old (new' @ ?t) = sublist old ?t"
      using "2.prems"(1,4) by (simp add: sublist_skip_no_head)
    finally show ?thesis using eq ih np by (simp del: replace.simps)
  next
    case False
    have eq: "replace old new (c # cs) = c # replace old new cs"
      using False ne by (rule replace_no_match[rotated])
    have ih: "\<not> sublist old (replace old new cs)"
      using "2.IH"(3)[OF ne False "2.prems"] .
    have "\<not> prefix old (c # replace old new cs)"
    proof
      assume pr: "prefix old (c # replace old new cs)"
      with "2.prems"(1) have c: "c = p" and "prefix old' (replace old new cs)" by auto
      from prefix_replace_imp_prefix[OF "2.prems"(1,2,3) this(2)] have "prefix old' cs" .
      with c "2.prems"(1) have "prefix old (c # cs)" by simp
      with False show False by simp
    qed
    with ih eq show ?thesis by (simp del: replace.simps add: sublist_Cons_right)
  qed
qed

lemma fix_typos_clean: "\<not> py_in ''poinsenttia'' (fix_typos x)"
proof (cases "py_in ''poinsenttia'' x")
  case True
  have "\<not> sublist ''poinsenttia'' (replace ''poinsenttia'' ''poinsettia'' x)"
    by (rule not_sublist_replace[where p = "CHR ''p''" and old' = "''oinsenttia''" and new' = "''oinsettia''"]) simp_all
  with True show ?thesis by (simp add: fix_typos_def py_in_def)
next
  case False
  then show ?thesis by (simp add: fix_typos_def)
qed

text \<open>
  Claim C6. The label correction of the detection loop (every occurrence of
  \<open>poinsenttia\<close> replaced by \<open>poinsettia\<close>) is idempotent: correcting a corrected label
  changes nothing.
\<close>

theorem fix_typos_idempotent: "fix_typos (fix_typos x) = fix_typos x"
  using fix_typos_clean [of x] by (simp add: fix_typos_def [of "fix_typos x"])

section \<open>Scheduler\<close>

lemma run_ticks_same_hour:
  "last_detection_hour st = h \<Longrightarrow> run_ticks target_hours (replicate n h) st = st"
  by (induction n) (simp_all add: tick_def)

lemma run_ticks_no_target:
  "h \<notin> set target_hours \<Longrightarrow> cycles (run_ticks target_hours (replicate n h) st) = cycles st"
  by (induction n arbitrary: st) (simp_all add: tick_def)

lemma run_ticks_replicate_cycles:
  "cycles (run_ticks target_hours (replicate n h) st) =
     cycles st + (if h \<in> set target_hours \<and> h \<noteq> last_detection_hour st \<and> 0 < n then 1 else 0)"
proof (cases n)
  case 0
  then show ?thesis by simp
next
  case (Suc m)
  show ?thesis
  proof (cases "h \<in> set target_hours \<and> h \<noteq> last_detection_hour st")
    case True
    then have "tick target_hours h st = \<lparr>last_detection_hour = h, cycles = Suc (cycles st)\<rparr>"
      by (simp add: tick_def)
    then show ?thesis using True Suc
      by (simp add: run_ticks_same_hour)
  next
    case False
    show ?thesis
    proof (cases "h = last_detection_hour st")
      case True
      then show ?thesis using run_ticks_same_hour [of st h target_hours n] by simp
    next
      case False
      with \<open>\<not> (h \<in> set target_hours \<and> h \<noteq> last_detection_hour st)\<close>
      have "h \<notin> set target_hours" by simp
      then show ?thesis by (simp add: run_ticks_no_target)
    qed
  qed
qed

text \<open>
  Claim C4. One poll tick with current hour \<open>h\<close>: if \<open>h\<close> is a target hour and differs
  from \<open>last_detection_hour\<close>, exactly one detection cycle runs and
  \<open>last_detection_hour\<close> becomes \<open>h\<close>; otherwise, if \<open>h\<close> differs from
  \<open>last_detection_hour\<close>, the state is reset to the sentinel \<open>-1\<close> and no cycle runs;
  with \<open>h\<close> equal to \<open>last_detection_hour\<close> nothing changes. Hence over any run of
  \<open>n\<close> consecutive ticks that all read the hour \<open>h\<close> at most one cycle fires, and exactly
  one when \<open>h\<close> is a target hour not yet fired and \<open>n\<close> is positive.
\<close>

theorem scheduler_fires_once_per_hour:
  "(h \<in> set target_hours \<and> h \<noteq> last_detection_hour st \<longrightarrow>
      tick target_hours h st = \<lparr>last_detection_hour = h, cycles = Suc (cycles st)\<rparr>)
   \<and> (h \<notin> set target_hours \<and> h \<noteq> last_detection_hour st \<longrightarrow>
      tick target_hours h st = \<lparr>last_detection_hour = - 1, cycles = cycles st\<rparr>)
   \<and> (h = last_detection_hour st \<longrightarrow> tick target_hours h st = st)
   \<and> cycles (run_ticks target_hours (replicate n h) st) \<le> Suc (cycles st)
   \<and> (h \<in> set target_hours \<and> h \<noteq> last_detection_hour st \<and> 0 < n \<longrightarrow>
      cycles (run_ticks target_hours (replicate n h) st) = Suc (cycles st))"
  by (simp add: tick_def run_ticks_replicate_cycles)

theorem scheduler_fires_once_per_hour_witness:
  "(7 \<in> set TARGET_HOURS \<and> 7 \<noteq> last_detection_hour sched_init)
   \<and> tick TARGET_HOURS 7 sched_init = \<lparr>last_detection_hour = 7, cycles = 1\<rparr>
   \<and> ((30::int) \<notin> set [9, 18] \<and> 30 \<noteq> last_detection_hour \<lparr>last_detection_hour = 9, cycles = 1\<rparr>)
   \<and> tick [9, 18] 30 \<lparr>last_detection_hour = 9, cycles = 1\<rparr> = \<lparr>last_detection_hour = - 1, cycles = 1\<rparr>
   \<and> tick TARGET_HOURS 7 \<lparr>last_detection_hour = 7, cycles = 1\<rparr> = \<lparr>last_detection_hour = 7, cycles = 1\<rparr>
   \<and> cycles (run_ticks TARGET_HOURS (replicate 6 7) sched_init) = 1"
proof -
  have t: "(7::int) \<in> set TARGET_HOURS"
    by (simp add: TARGET_HOURS_def)
  have l: "(7::int) \<noteq> last_detection_hour sched_init"
    by (simp add: sched_init_def)
  have c: "cycles sched_init = 0"
    by (simp add: sched_init_def)
  show ?thesis
    using scheduler_fires_once_per_hour [of 7 TARGET_HOURS sched_init 6]
      scheduler_fires_once_per_hour [of 30 "[9, 18]" "\<lparr>last_detection_hour = 9, cycles = 1\<rparr>" 1]
      scheduler_fires_once_per_hour [of 7 TARGET_HOURS "\<lparr>last_detection_hour = 7, cycles = 1\<rparr>" 1]
      t l c
    by simp
qed

section \<open>Species map\<close>

lemma extract_species_cases:
  "extract_species_from_label l = ''basil'' \<or> extract_species_from_label l = ''poinsettia''
   \<or> extract_species_from_label l = ''unknown''"
  by (simp add: extract_species_from_label_def Let_def)

lemma detect_loop_species:
  "unique_species_set (detect_loop i labels acc) =
     unique_species_set acc \<union>
       {sp. \<exists>l \<in> set labels. sp = extract_species_from_label (fix_typos l) \<and> sp \<noteq> ''unknown''}"
proof (induction labels arbitrary: i acc)
  case Nil
  then show ?case by simp
next
  case (Cons l labels)
  show ?case
    by (auto simp: Cons.IH Let_def)
qed

lemma fst_detect_maps:
  "fst (detect_maps labels) =
     species_data_of {sp. \<exists>l \<in> set labels. sp = extract_species_from_label (fix_typos l) \<and> sp \<noteq> ''unknown''}"
  by (simp add: detect_maps_def Let_def detect_loop_species)

lemma species_subset:
  "{sp. \<exists>l \<in> set labels. sp = extract_species_from_label (fix_typos l) \<and> sp \<noteq> ''unknown''}
     \<subseteq> {''basil'', ''poinsettia''}"
  using extract_species_cases by auto

lemma snd_species_data_of: "map snd (species_data_of S) = sorted_list_of_set S"
  by (simp add: species_data_of_def enumerate_eq_zip map_snd_zip_take comp_def case_prod_unfold)

lemma fst_species_data_of:
  "map fst (species_data_of S) = map str_nat [0..<length (species_data_of S)]"
proof -
  let ?xs = "sorted_list_of_set S"
  have "map fst (species_data_of S) = map (str_nat \<circ> fst) (enumerate 0 ?xs)"
    by (simp add: species_data_of_def comp_def case_prod_unfold)
  also have "\<dots> = map str_nat (map fst (enumerate 0 ?xs))"
    by (simp only: map_map)
  also have "\<dots> = map str_nat [0..<length ?xs]"
    by (simp add: map_fst_enumerate)
  finally show ?thesis
    by (simp add: species_data_of_def)
qed

lemma species_data_example:
  "species_data_of {''basil'', ''poinsettia''} = [(''0'', ''basil''), (''1'', ''poinsettia'')]"
  by code_simp

lemma species_example_labels:
  "extract_species_from_label (fix_typos ''basil_healthy'') = ''basil''"
  "extract_species_from_label (fix_typos ''BASIL_unhealthy'') = ''basil''"
  "extract_species_from_label (fix_typos ''poin_healthy'') = ''poinsettia''"
  by code_simp+


lemma lower_char_letter:
  assumes "97 \<le> (of_char k :: nat)" and "(of_char k :: nat) \<le> 122"
  shows "lower_char c = k \<longleftrightarrow> same_letter c k"
proof -
  let ?n = "of_char c :: nat"
  have lt: "?n < 256" by simp
  show ?thesis
  proof (cases "(65 \<le> ?n \<and> ?n \<le> 90) \<or> (192 \<le> ?n \<and> ?n \<le> 222 \<and> ?n \<noteq> 215)")
    case True
    then have lc: "lower_char c = char_of (?n + 32)"
      by (simp add: lower_char_def Let_def)
    have small: "?n + 32 < 256" using True by auto
    have "lower_char c = k \<longleftrightarrow> (of_char (lower_char c) :: nat) = of_char k"
      by (metis char_of_char)
    also have "(of_char (lower_char c) :: nat) = ?n + 32"
      using small by (simp add: lc)
    finally have "lower_char c = k \<longleftrightarrow> ?n + 32 = of_char k" .
    moreover have "c \<noteq> k" using True assms by auto
    ultimately show ?thesis by (simp add: same_letter_def)
  next
    case False
    then have lc: "lower_char c = c"
      by (auto simp: lower_char_def Let_def)
    have "?n + 32 \<noteq> of_char k" using False assms by auto
    then show ?thesis by (simp add: lc same_letter_def)
  qed
qed

lemma prefix_lower_ci:
  "lowercase_ascii keyword \<Longrightarrow> prefix keyword (lower label) = ci_prefix keyword label"
proof (induction keyword label rule: ci_prefix.induct)
  case (1 label)
  then show ?case by simp
next
  case (2 k ks)
  then show ?case by (simp add: lower_def)
next
  case (3 k ks c cs)
  then have "lowercase_ascii ks" and k: "97 \<le> (of_char k :: nat)" "(of_char k :: nat) \<le> 122"
    by (simp_all add: lowercase_ascii_def)
  with 3 have "prefix ks (lower cs) = ci_prefix ks cs" by simp
  moreover have "(k = lower_char c) = same_letter c k"
    using lower_char_letter [OF k, of c] by auto
  ultimately show ?case by (simp add: lower_def)
qed

lemma py_in_lower_ci:
  "lowercase_ascii keyword \<Longrightarrow> py_in keyword (lower label) = ci_in keyword label"
proof (induction label)
  case Nil
  then show ?case by (simp add: py_in_def lower_def)
next
  case (Cons c cs)
  have "py_in keyword (lower (c # cs)) =
          (prefix keyword (lower (c # cs)) \<or> py_in keyword (lower cs))"
    by (simp add: py_in_def lower_def sublist_Cons_right)
  with Cons show ?case
    by (simp add: prefix_lower_ci)
qed

lemma keywords_ci:
  "py_in ''basil'' (lower label) = ci_in ''basil'' label"
  "py_in ''bail'' (lower label) = ci_in ''bail'' label"
  "py_in ''poin'' (lower label) = ci_in ''poin'' label"
  by (rule py_in_lower_ci, simp add: lowercase_ascii_def)+

text \<open>
  Claim C5. The species map that \<open>detect\<close> uploads lists, in lexicographic order and
  without duplicates, the species of the (corrected) labels, keyed by the ordinals
  \<open>0, 1, ...\<close> as decimal strings. Matching ignores case: a label that contains \<open>basil\<close>
  or \<open>bail\<close> in any mix of capitals and small letters contributes \<open>basil\<close>, one that so
  contains \<open>poin\<close> and no basil keyword contributes \<open>poinsettia\<close>, every other label
  contributes nothing (\<open>unknown\<close> is never recorded). The map depends only on the
  multiset of labels, not on their order: the labels \<open>basil_healthy\<close>,
  \<open>BASIL_unhealthy\<close>, \<open>poin_healthy\<close> in any order give
  \<open>{"0": "basil", "1": "poinsettia"}\<close>.
\<close>

theorem species_map_order_independent:
  "map snd (fst (detect_maps labels)) =
     sorted_list_of_set
       {sp. \<exists>l \<in> set labels. sp = extract_species_from_label (fix_typos l) \<and> sp \<noteq> ''unknown''}
   \<and> map fst (fst (detect_maps labels)) = map str_nat [0..<length (fst (detect_maps labels))]
   \<and> sorted (map snd (fst (detect_maps labels)))
   \<and> distinct (map snd (fst (detect_maps labels)))
   \<and> set (map snd (fst (detect_maps labels))) \<subseteq> {''basil'', ''poinsettia''}
   \<and> (''basil'' \<in> set (map snd (fst (detect_maps labels))) \<longleftrightarrow>
        (\<exists>l \<in> set labels. py_in ''basil'' (lower (fix_typos l)) \<or> py_in ''bail'' (lower (fix_typos l))))
   \<and> (''poinsettia'' \<in> set (map snd (fst (detect_maps labels))) \<longleftrightarrow>
        (\<exists>l \<in> set labels. \<not> py_in ''basil'' (lower (fix_typos l)) \<and> \<not> py_in ''bail'' (lower (fix_typos l))
                           \<and> py_in ''poin'' (lower (fix_typos l))))
   \<and> (\<forall>labels'. mset labels' = mset labels \<longrightarrow> fst (detect_maps labels') = fst (detect_maps labels))
   \<and> (mset labels = {#''basil_healthy'', ''BASIL_unhealthy'', ''poin_healthy''#} \<longrightarrow>
        fst (detect_maps labels) = [(''0'', ''basil''), (''1'', ''poinsettia'')])
   \<and> (''basil'' \<in> set (map snd (fst (detect_maps labels))) \<longleftrightarrow>
        (\<exists>l \<in> set labels. ci_in ''basil'' (fix_typos l) \<or> ci_in ''bail'' (fix_typos l)))
   \<and> (''poinsettia'' \<in> set (map snd (fst (detect_maps labels))) \<longleftrightarrow>
        (\<exists>l \<in> set labels. \<not> ci_in ''basil'' (fix_typos l) \<and> \<not> ci_in ''bail'' (fix_typos l)
                           \<and> ci_in ''poin'' (fix_typos l)))"
proof -
  let ?S = "{sp. \<exists>l \<in> set labels. sp = extract_species_from_label (fix_typos l) \<and> sp \<noteq> ''unknown''}"
  have sub: "?S \<subseteq> {''basil'', ''poinsettia''}"
    by (rule species_subset)
  then have fin: "finite ?S"
    by (rule finite_subset) simp
  have snd_eq: "map snd (fst (detect_maps labels)) = sorted_list_of_set ?S"
    by (simp only: fst_detect_maps snd_species_data_of)
  have set_eq: "set (map snd (fst (detect_maps labels))) = ?S"
    using fin by (simp only: snd_eq sorted_list_of_set.set_sorted_key_list_of_set)
  have c1: "map fst (fst (detect_maps labels)) = map str_nat [0..<length (fst (detect_maps labels))]"
    by (simp only: fst_detect_maps fst_species_data_of)
  have c2: "sorted (map snd (fst (detect_maps labels)))"
    by (simp only: snd_eq sorted_list_of_set.sorted_sorted_key_list_of_set)
  have c3: "distinct (map snd (fst (detect_maps labels)))"
    by (simp only: snd_eq sorted_list_of_set.distinct_sorted_key_list_of_set)
  have c4: "set (map snd (fst (detect_maps labels))) \<subseteq> {''basil'', ''poinsettia''}"
    using sub by (simp only: set_eq)
  have c5: "''basil'' \<in> set (map snd (fst (detect_maps labels))) \<longleftrightarrow>
        (\<exists>l \<in> set labels. py_in ''basil'' (lower (fix_typos l)) \<or> py_in ''bail'' (lower (fix_typos l)))"
    unfolding set_eq by (auto simp: extract_species_from_label_def Let_def split: if_splits)
  have c6: "''poinsettia'' \<in> set (map snd (fst (detect_maps labels))) \<longleftrightarrow>
        (\<exists>l \<in> set labels. \<not> py_in ''basil'' (lower (fix_typos l)) \<and> \<not> py_in ''bail'' (lower (fix_typos l))
                           \<and> py_in ''poin'' (lower (fix_typos l)))"
    unfolding set_eq by (auto simp: extract_species_from_label_def Let_def split: if_splits)
  have c7: "\<forall>labels'. mset labels' = mset labels \<longrightarrow> fst (detect_maps labels') = fst (detect_maps labels)"
  proof (intro allI impI)
    fix labels'
    assume "mset labels' = mset labels"
    then have "set labels' = set labels"
      by (rule mset_eq_setD)
    then show "fst (detect_maps labels') = fst (detect_maps labels)"
      by (simp only: fst_detect_maps)
  qed
  have c8: "mset labels = {#''basil_healthy'', ''BASIL_unhealthy'', ''poin_healthy''#} \<longrightarrow>
        fst (detect_maps labels) = [(''0'', ''basil''), (''1'', ''poinsettia'')]"
  proof
    assume "mset labels = {#''basil_healthy'', ''BASIL_unhealthy'', ''poin_healthy''#}"
    then have "set_mset (mset labels) = set_mset {#''basil_healthy'', ''BASIL_unhealthy'', ''poin_healthy''#}"
      by (rule arg_cong)
    then have "set labels = {''basil_healthy'', ''BASIL_unhealthy'', ''poin_healthy''}"
      by simp
    then have "?S = {''basil'', ''poinsettia''}"
      by (auto simp: species_example_labels)
    then show "fst (detect_maps labels) = [(''0'', ''basil''), (''1'', ''poinsettia'')]"
      by (simp only: fst_detect_maps species_data_example)
  qed
  have c9: "''basil'' \<in> set (map snd (fst (detect_maps labels))) \<longleftrightarrow>
        (\<exists>l \<in> set labels. ci_in ''basil'' (fix_typos l) \<or> ci_in ''bail'' (fix_typos l))"
    using c5 by (simp only: keywords_ci)
  have c10: "''poinsettia'' \<in> set (map snd (fst (detect_maps labels))) \<longleftrightarrow>
        (\<exists>l \<in> set labels. \<not> ci_in ''basil'' (fix_typos l) \<and> \<not> ci_in ''bail'' (fix_typos l)
                           \<and> ci_in ''poin'' (fix_typos l))"
    using c6 by (simp only: keywords_ci)
  from snd_eq c1 c2 c3 c4 c5 c6 c7 c8 c9 c10 show ?thesis
    by (intro conjI)
qed


theorem species_map_order_independent_witness:
  "mset [''poin_healthy'', ''BASIL_unhealthy'', ''basil_healthy'']
     = {#''basil_healthy'', ''BASIL_unhealthy'', ''poin_healthy''#}
   \<and> fst (detect_maps [''poin_healthy'', ''BASIL_unhealthy'', ''basil_healthy''])
     = [(''0'', ''basil''), (''1'', ''poinsettia'')]
   \<and> ci_in ''basil'' (fix_typos ''BASIL_unhealthy'')
   \<and> ''basil'' \<in> set (map snd (fst (detect_maps [''tomato'', ''BASIL_unhealthy''])))
   \<and> \<not> ci_in ''basil'' (fix_typos ''Healthy_PoinSenttia'')
   \<and> \<not> ci_in ''bail'' (fix_typos ''Healthy_PoinSenttia'')
   \<and> ci_in ''poin'' (fix_typos ''Healthy_PoinSenttia'')
   \<and> ''poinsettia'' \<in> set (map snd (fst (detect_maps [''Healthy_PoinSenttia''])))
   \<and> fst (detect_maps [''POIN_Healthy'', ''tomato'', ''BAIL_unhealthy''])
     = [(''0'', ''basil''), (''1'', ''poinsettia'')]"
proof -
  have m: "mset [''poin_healthy'', ''BASIL_unhealthy'', ''basil_healthy'']
     = {#''basil_healthy'', ''BASIL_unhealthy'', ''poin_healthy''#}"
    by simp
  have w1: "fst (detect_maps [''poin_healthy'', ''BASIL_unhealthy'', ''basil_healthy''])
     = [(''0'', ''basil''), (''1'', ''poinsettia'')]"
    using species_map_order_independent [of "[''poin_healthy'', ''BASIL_unhealthy'', ''basil_healthy'']"] m
    by blast
  have b: "ci_in ''basil'' (fix_typos ''BASIL_unhealthy'')"
    by code_simp
  then have eb: "\<exists>l \<in> set [''tomato'', ''BASIL_unhealthy''].
      ci_in ''basil'' (fix_typos l) \<or> ci_in ''bail'' (fix_typos l)"
    by simp
  have w2: "''basil'' \<in> set (map snd (fst (detect_maps [''tomato'', ''BASIL_unhealthy''])))"
    using species_map_order_independent [of "[''tomato'', ''BASIL_unhealthy'']",
      THEN conjunct2, THEN conjunct2, THEN conjunct2, THEN conjunct2, THEN conjunct2,
      THEN conjunct2, THEN conjunct2, THEN conjunct2, THEN conjunct2, THEN conjunct1,
      THEN iffD2, OF eb] .
  have p: "\<not> ci_in ''basil'' (fix_typos ''Healthy_PoinSenttia'')"
    "\<not> ci_in ''bail'' (fix_typos ''Healthy_PoinSenttia'')"
    "ci_in ''poin'' (fix_typos ''Healthy_PoinSenttia'')"
    by code_simp+
  then have ep: "\<exists>l \<in> set [''Healthy_PoinSenttia''].
      \<not> ci_in ''basil'' (fix_typos l) \<and> \<not> ci_in ''bail'' (fix_typos l) \<and> ci_in ''poin'' (fix_typos l)"
    by simp
  have w3: "''poinsettia'' \<in> set (map snd (fst (detect_maps [''Healthy_PoinSenttia''])))"
    using species_map_order_independent [of "[''Healthy_PoinSenttia'']",
      THEN conjunct2, THEN conjunct2, THEN conjunct2, THEN conjunct2, THEN conjunct2,
      THEN conjunct2, THEN conjunct2, THEN conjunct2, THEN conjunct2, THEN conjunct2,
      THEN iffD2, OF ep] .
  have w4: "fst (detect_maps [''POIN_Healthy'', ''tomato'', ''BAIL_unhealthy''])
     = [(''0'', ''basil''), (''1'', ''poinsettia'')]"
    by code_simp
  from m w1 b w2 p w3 w4 show ?thesis
    by (intro conjI)
qed

section \<open>Config read\<close>

lemma except_JNull [simp]: "get_latest_cin_json_except e = JNull"
  by (cases e) simp_all

lemma truthy_not_dict_loads:
  "truthy con \<Longrightarrow> \<not> is_dict con \<Longrightarrow> \<forall>s. con \<noteq> JStr s \<Longrightarrow> json_loads parse con = Inl TypeError"
  by (cases con) simp_all

lemma get_latest_raised:
  "http_get (get_request container_url origin) = Raised e \<Longrightarrow>
   get_latest_cin_json parse http_get container_url origin = JNull"
  by (simp add: get_latest_cin_json_def get_latest_cin_json_try_def)

lemma get_latest_not_200:
  "http_get (get_request container_url origin) = Response status_code r_json \<Longrightarrow> status_code \<noteq> 200 \<Longrightarrow>
   get_latest_cin_json parse http_get container_url origin = JNull"
  by (simp add: get_latest_cin_json_def get_latest_cin_json_try_def)

lemma get_latest_bad_body:
  "http_get (get_request container_url origin) = Response 200 (Inl e) \<Longrightarrow>
   get_latest_cin_json parse http_get container_url origin = JNull"
  by (simp add: get_latest_cin_json_def get_latest_cin_json_try_def)

lemma get_latest_content:
  assumes "http_get (get_request container_url origin) = Response 200 (Inr (JObj body))"
    and "map_of body ''m2m:cin'' = Some (JObj cin)"
    and "map_of cin ''con'' = Some con"
  shows "get_latest_cin_json parse http_get container_url origin =
           (if \<not> truthy con then JNull
            else if is_dict con then con
            else case json_loads parse con of Inl e \<Rightarrow> JNull | Inr v \<Rightarrow> v)"
  using assms
  by (simp add: get_latest_cin_json_def get_latest_cin_json_try_def lookup_or_def split: sum.splits)

lemma get_latest_success:
  assumes "get_latest_cin_json parse http_get container_url origin \<noteq> JNull"
  shows "\<exists>body cin_data con.
           http_get (get_request container_url origin) = Response 200 (Inr body)
         \<and> dict_get body ''m2m:cin'' (JObj []) = Inr cin_data
         \<and> dict_get cin_data ''con'' JNull = Inr con
         \<and> truthy con
         \<and> (if is_dict con then get_latest_cin_json parse http_get container_url origin = con
             else \<exists>s. con = JStr s \<and> parse s = Inr (get_latest_cin_json parse http_get container_url origin))"
proof (cases "http_get (get_request container_url origin)")
  case (Raised e)
  with assms show ?thesis by (simp add: get_latest_raised)
next
  case (Response status_code r_json)
  show ?thesis
  proof (cases "status_code = 200")
    case False
    with assms Response show ?thesis by (simp add: get_latest_not_200)
  next
    case True
    show ?thesis
    proof (cases r_json)
      case (Inl e)
      with assms Response True show ?thesis by (simp add: get_latest_bad_body)
    next
      case (Inr body)
      show ?thesis
      proof (cases "dict_get body ''m2m:cin'' (JObj [])")
        case (Inl e)
        with assms Response True Inr show ?thesis
          by (simp add: get_latest_cin_json_def get_latest_cin_json_try_def)
      next
        case cin: (Inr cin_data)
        show ?thesis
        proof (cases "dict_get cin_data ''con'' JNull")
          case (Inl e)
          with assms Response True Inr cin show ?thesis
            by (simp add: get_latest_cin_json_def get_latest_cin_json_try_def)
        next
          case con: (Inr con)
          have res: "get_latest_cin_json parse http_get container_url origin =
                 (if \<not> truthy con then JNull
                  else if is_dict con then con
                  else case json_loads parse con of Inl e \<Rightarrow> JNull | Inr v \<Rightarrow> v)"
            using Response True Inr cin con
            by (simp add: get_latest_cin_json_def get_latest_cin_json_try_def split: sum.splits)
          with assms have t: "truthy con" by (auto split: if_splits)
          show ?thesis
          proof (cases "is_dict con")
            case True
            with res t Response \<open>status_code = 200\<close> Inr cin con show ?thesis by simp
          next
            case False
            with res t assms obtain s where "con = JStr s"
              by (cases con) (auto split: sum.splits)
            with res t assms False have "parse s = Inr (get_latest_cin_json parse http_get container_url origin)"
              by (auto split: sum.splits)
            with \<open>con = JStr s\<close> False t Response \<open>status_code = 200\<close> Inr cin con show ?thesis by simp
          qed
        qed
      qed
    qed
  qed
qed


lemma dict_get_Inr:
  "dict_get v key dflt = Inr x \<Longrightarrow> \<exists>kvs. v = JObj kvs \<and> x = lookup_or kvs key dflt"
  by (cases v) simp_all

lemma truthy_dict_get:
  "dict_get v key JNull = Inr x \<Longrightarrow> truthy x \<Longrightarrow> \<exists>kvs. v = JObj kvs \<and> map_of kvs key = Some x"
  by (cases v) (auto simp: lookup_or_def split: option.splits)

lemma load_models_success:
  assumes "load_models py_str parse http_get v0 v1 = Inr cfg" and "cfg \<noteq> JNull"
  shows "\<exists>ds dh ms mh. v0 = JObj ds \<and> v1 = JObj dh
     \<and> get_latest_cin_json parse (http_get 2)
          (TINYIOT_URL @ format_value py_str (lookup_or ds ''modelID'' JNull)) RASPI_ORIGIN = JObj ms
     \<and> ms \<noteq> []
     \<and> get_latest_cin_json parse (http_get 3)
          (TINYIOT_URL @ format_value py_str (lookup_or dh ''modelID'' JNull)) RASPI_ORIGIN = JObj mh
     \<and> mh \<noteq> []
     \<and> cfg = JObj
          [(''model_species_path'', lookup_or ms ''mlModelPath'' JNull),
           (''model_health_path'', lookup_or mh ''mlModelPath'' JNull),
           (''output_species'', lookup_or ds ''outputResource'' JNull),
           (''output_health'', lookup_or dh ''outputResource'' JNull),
           (''url_species'', JStr (TINYIOT_URL @ format_value py_str (lookup_or ds ''outputResource'' JNull))),
           (''url_health'', JStr (TINYIOT_URL @ format_value py_str (lookup_or dh ''outputResource'' JNull)))]"
proof -
  obtain ds where v0: "v0 = JObj ds"
    using assms(1) by (cases v0) (simp_all add: load_models_def)
  obtain dh where v1: "v1 = JObj dh"
    using assms(1) v0 by (cases v1) (simp_all add: load_models_def)
  let ?r2 = "get_latest_cin_json parse (http_get 2)
          (TINYIOT_URL @ format_value py_str (lookup_or ds ''modelID'' JNull)) RASPI_ORIGIN"
  let ?r3 = "get_latest_cin_json parse (http_get 3)
          (TINYIOT_URL @ format_value py_str (lookup_or dh ''modelID'' JNull)) RASPI_ORIGIN"
  have t: "truthy ?r2 \<and> truthy ?r3"
    using assms v0 v1 by (auto simp: load_models_def Let_def split: if_splits)
  obtain ms where r2: "?r2 = JObj ms"
    using assms(1) v0 v1 t by (cases ?r2) (simp_all add: load_models_def Let_def)
  obtain mh where r3: "?r3 = JObj mh"
    using assms(1) v0 v1 t r2 by (cases ?r3) (simp_all add: load_models_def Let_def)
  have "ms \<noteq> []" "mh \<noteq> []"
    using t r2 r3 by simp_all
  moreover have "cfg = JObj
          [(''model_species_path'', lookup_or ms ''mlModelPath'' JNull),
           (''model_health_path'', lookup_or mh ''mlModelPath'' JNull),
           (''output_species'', lookup_or ds ''outputResource'' JNull),
           (''output_health'', lookup_or dh ''outputResource'' JNull),
           (''url_species'', JStr (TINYIOT_URL @ format_value py_str (lookup_or ds ''outputResource'' JNull))),
           (''url_health'', JStr (TINYIOT_URL @ format_value py_str (lookup_or dh ''outputResource'' JNull)))]"
    using assms(1) v0 v1 t r2 r3 by (simp add: load_models_def Let_def)
  ultimately show ?thesis
    using v0 v1 r2 r3 by blast
qed

lemma load_config_success:
  assumes "load_config_from_cse py_str parse http_get \<noteq> JNull"
  shows "\<exists>ds dh ms mh.
       get_latest_cin_json parse (http_get 0)
          (TINYIOT_URL @ ''/TinyIoT/'' @ AE_NAME @ ''/modelDeploymentList'' @ ''/modelDeploy_species'')
          RASPI_ORIGIN = JObj ds
     \<and> ds \<noteq> []
     \<and> get_latest_cin_json parse (http_get 1)
          (TINYIOT_URL @ ''/TinyIoT/'' @ AE_NAME @ ''/modelDeploymentList'' @ ''/modelDeploy_healthy'')
          RASPI_ORIGIN = JObj dh
     \<and> dh \<noteq> []
     \<and> get_latest_cin_json parse (http_get 2)
          (TINYIOT_URL @ format_value py_str (lookup_or ds ''modelID'' JNull)) RASPI_ORIGIN = JObj ms
     \<and> ms \<noteq> []
     \<and> get_latest_cin_json parse (http_get 3)
          (TINYIOT_URL @ format_value py_str (lookup_or dh ''modelID'' JNull)) RASPI_ORIGIN = JObj mh
     \<and> mh \<noteq> []
     \<and> load_config_from_cse py_str parse http_get = JObj
          [(''model_species_path'', lookup_or ms ''mlModelPath'' JNull),
           (''model_health_path'', lookup_or mh ''mlModelPath'' JNull),
           (''output_species'', lookup_or ds ''outputResource'' JNull),
           (''output_health'', lookup_or dh ''outputResource'' JNull),
           (''url_species'', JStr (TINYIOT_URL @ format_value py_str (lookup_or ds ''outputResource'' JNull))),
           (''url_health'', JStr (TINYIOT_URL @ format_value py_str (lookup_or dh ''outputResource'' JNull)))]"
proof -
  let ?r0 = "get_latest_cin_json parse (http_get 0)
          (TINYIOT_URL @ ''/TinyIoT/'' @ AE_NAME @ ''/modelDeploymentList'' @ ''/modelDeploy_species'')
          RASPI_ORIGIN"
  let ?r1 = "get_latest_cin_json parse (http_get 1)
          (TINYIOT_URL @ ''/TinyIoT/'' @ AE_NAME @ ''/modelDeploymentList'' @ ''/modelDeploy_healthy'')
          RASPI_ORIGIN"
  let ?cfg = "load_config_from_cse py_str parse http_get"
  have t: "truthy ?r0 \<and> truthy ?r1"
    using assms by (auto simp: load_config_from_cse_def Let_def split: if_splits)
  then have "?cfg = (case load_models py_str parse http_get ?r0 ?r1 of Inl e \<Rightarrow> JNull | Inr config \<Rightarrow> config)"
    by (simp add: load_config_from_cse_def Let_def)
  with assms have lm: "load_models py_str parse http_get ?r0 ?r1 = Inr ?cfg"
    by (cases "load_models py_str parse http_get ?r0 ?r1") simp_all
  from load_models_success [OF lm assms] obtain ds dh ms mh where
    h: "?r0 = JObj ds" "?r1 = JObj dh"
     "get_latest_cin_json parse (http_get 2)
          (TINYIOT_URL @ format_value py_str (lookup_or ds ''modelID'' JNull)) RASPI_ORIGIN = JObj ms"
     "ms \<noteq> []"
     "get_latest_cin_json parse (http_get 3)
          (TINYIOT_URL @ format_value py_str (lookup_or dh ''modelID'' JNull)) RASPI_ORIGIN = JObj mh"
     "mh \<noteq> []"
     "?cfg = JObj
          [(''model_species_path'', lookup_or ms ''mlModelPath'' JNull),
           (''model_health_path'', lookup_or mh ''mlModelPath'' JNull),
           (''output_species'', lookup_or ds ''outputResource'' JNull),
           (''output_health'', lookup_or dh ''outputResource'' JNull),
           (''url_species'', JStr (TINYIOT_URL @ format_value py_str (lookup_or ds ''outputResource'' JNull))),
           (''url_health'', JStr (TINYIOT_URL @ format_value py_str (lookup_or dh ''outputResource'' JNull)))]"
    by blast
  have "ds \<noteq> []" "dh \<noteq> []"
    using t h(1,2) by simp_all
  with h show ?thesis
    by blast
qed

lemma load_config_read_fails:
  assumes "i < 4" and "\<forall>container_url. \<not> truthy (get_latest_cin_json parse (http_get i) container_url RASPI_ORIGIN)"
  shows "load_config_from_cse py_str parse http_get = JNull"
proof (rule ccontr)
  assume "load_config_from_cse py_str parse http_get \<noteq> JNull"
  from load_config_success [OF this] obtain ds dh ms mh where
    h: "get_latest_cin_json parse (http_get 0)
          (TINYIOT_URL @ ''/TinyIoT/'' @ AE_NAME @ ''/modelDeploymentList'' @ ''/modelDeploy_species'')
          RASPI_ORIGIN = JObj ds" "ds \<noteq> []"
       "get_latest_cin_json parse (http_get 1)
          (TINYIOT_URL @ ''/TinyIoT/'' @ AE_NAME @ ''/modelDeploymentList'' @ ''/modelDeploy_healthy'')
          RASPI_ORIGIN = JObj dh" "dh \<noteq> []"
      "get_latest_cin_json parse (http_get 2)
          (TINYIOT_URL @ format_value py_str (lookup_or ds ''modelID'' JNull)) RASPI_ORIGIN = JObj ms"
     "ms \<noteq> []"
     "get_latest_cin_json parse (http_get 3)
          (TINYIOT_URL @ format_value py_str (lookup_or dh ''modelID'' JNull)) RASPI_ORIGIN = JObj mh"
     "mh \<noteq> []"
    by blast
  from assms(1) have "i = 0 \<or> i = 1 \<or> i = 2 \<or> i = 3" by arith
  then show False
  proof (elim disjE)
    assume "i = 0"
    with assms(2) h(1,2) show False by (metis truthy.simps(7))
  next
    assume "i = 1"
    with assms(2) h(3,4) show False by (metis truthy.simps(7))
  next
    assume "i = 2"
    with assms(2) h(5,6) show False by (metis truthy.simps(7))
  next
    assume "i = 3"
    with assms(2) h(7,8) show False by (metis truthy.simps(7))
  qed
qed


lemma get_latest_success_maps:
  assumes "get_latest_cin_json parse http_get container_url origin \<noteq> JNull"
  shows "\<exists>body cin con.
           http_get (get_request container_url origin) = Response 200 (Inr (JObj body))
         \<and> map_of body ''m2m:cin'' = Some (JObj cin)
         \<and> map_of cin ''con'' = Some con
         \<and> truthy con
         \<and> ((is_dict con \<and> get_latest_cin_json parse http_get container_url origin = con)
            \<or> (\<exists>s. con = JStr s \<and> parse s = Inr (get_latest_cin_json parse http_get container_url origin)))"
proof -
  from get_latest_success [OF assms] obtain body cin_data con where
    r: "http_get (get_request container_url origin) = Response 200 (Inr body)"
    and b: "dict_get body ''m2m:cin'' (JObj []) = Inr cin_data"
    and c: "dict_get cin_data ''con'' JNull = Inr con"
    and t: "truthy con"
    and res: "if is_dict con then get_latest_cin_json parse http_get container_url origin = con
             else \<exists>s. con = JStr s \<and> parse s = Inr (get_latest_cin_json parse http_get container_url origin)"
    by blast
  from truthy_dict_get [OF c t] obtain cin where cin: "cin_data = JObj cin" "map_of cin ''con'' = Some con"
    by blast
  from dict_get_Inr [OF b] obtain kvs where kvs: "body = JObj kvs" "cin_data = lookup_or kvs ''m2m:cin'' (JObj [])"
    by blast
  have "map_of kvs ''m2m:cin'' = Some (JObj cin)"
    using kvs(2) cin by (cases "map_of kvs ''m2m:cin''") (auto simp: lookup_or_def)
  with r kvs(1) cin(2) t res show ?thesis
    by (cases "is_dict con") auto
qed

text \<open>
  Claim C7. Whatever the server does, \<open>get_latest_cin_json\<close> returns and never raises:
  a transport exception (a timeout among them), a status other than 200 (403 and 404
  among them) and a body that is not JSON give \<open>None\<close>. On a 200 whose \<open>m2m:cin\<close> has the
  content field \<open>con\<close>, a non-empty dict is returned as it is, a string is returned as
  the value \<open>json.loads\<close> decodes it to (so both representations of one payload give the
  same result), a string that does not parse gives \<open>None\<close>, and so does content that is
  neither a dict nor a string. A result other than \<open>None\<close> arises in no other way.
\<close>

theorem get_latest_cin_json_result:
  "(\<forall>e. http_get (get_request container_url origin) = Raised e \<longrightarrow>
        get_latest_cin_json parse http_get container_url origin = JNull)
   \<and> (\<forall>status_code r_json.
        http_get (get_request container_url origin) = Response status_code r_json \<and> status_code \<noteq> 200 \<longrightarrow>
        get_latest_cin_json parse http_get container_url origin = JNull)
   \<and> (\<forall>e. http_get (get_request container_url origin) = Response 200 (Inl e) \<longrightarrow>
        get_latest_cin_json parse http_get container_url origin = JNull)
   \<and> (\<forall>body cin con.
        http_get (get_request container_url origin) = Response 200 (Inr (JObj body))
        \<and> map_of body ''m2m:cin'' = Some (JObj cin) \<and> map_of cin ''con'' = Some con \<longrightarrow>
          (is_dict con \<and> truthy con \<longrightarrow>
             get_latest_cin_json parse http_get container_url origin = con)
        \<and> (\<forall>s v. con = JStr s \<and> s \<noteq> [] \<and> parse s = Inr v \<longrightarrow>
             get_latest_cin_json parse http_get container_url origin = v)
        \<and> (\<forall>s e. con = JStr s \<and> parse s = Inl e \<longrightarrow>
             get_latest_cin_json parse http_get container_url origin = JNull)
        \<and> (\<not> is_dict con \<and> (\<forall>s. con \<noteq> JStr s) \<longrightarrow>
             get_latest_cin_json parse http_get container_url origin = JNull))
   \<and> (get_latest_cin_json parse http_get container_url origin \<noteq> JNull \<longrightarrow>
        (\<exists>body cin con.
           http_get (get_request container_url origin) = Response 200 (Inr (JObj body))
         \<and> map_of body ''m2m:cin'' = Some (JObj cin)
         \<and> map_of cin ''con'' = Some con
         \<and> truthy con
         \<and> ((is_dict con \<and> get_latest_cin_json parse http_get container_url origin = con)
            \<or> (\<exists>s. con = JStr s \<and> parse s = Inr (get_latest_cin_json parse http_get container_url origin)))))"
proof -
  let ?r = "http_get (get_request container_url origin)"
  let ?res = "get_latest_cin_json parse http_get container_url origin"
  have c1: "\<forall>e. ?r = Raised e \<longrightarrow> ?res = JNull"
    by (simp add: get_latest_raised)
  have c2: "\<forall>status_code r_json. ?r = Response status_code r_json \<and> status_code \<noteq> 200 \<longrightarrow> ?res = JNull"
    by (simp add: get_latest_not_200)
  have c3: "\<forall>e. ?r = Response 200 (Inl e) \<longrightarrow> ?res = JNull"
    by (simp add: get_latest_bad_body)
  have c4: "\<forall>body cin con.
        ?r = Response 200 (Inr (JObj body))
        \<and> map_of body ''m2m:cin'' = Some (JObj cin) \<and> map_of cin ''con'' = Some con \<longrightarrow>
          (is_dict con \<and> truthy con \<longrightarrow> ?res = con)
        \<and> (\<forall>s v. con = JStr s \<and> s \<noteq> [] \<and> parse s = Inr v \<longrightarrow> ?res = v)
        \<and> (\<forall>s e. con = JStr s \<and> parse s = Inl e \<longrightarrow> ?res = JNull)
        \<and> (\<not> is_dict con \<and> (\<forall>s. con \<noteq> JStr s) \<longrightarrow> ?res = JNull)"
  proof (intro allI impI)
    fix body cin con
    assume a: "?r = Response 200 (Inr (JObj body))
        \<and> map_of body ''m2m:cin'' = Some (JObj cin) \<and> map_of cin ''con'' = Some con"
    then have eq: "?res = (if \<not> truthy con then JNull
            else if is_dict con then con
            else case json_loads parse con of Inl e \<Rightarrow> JNull | Inr v \<Rightarrow> v)"
      by (simp add: get_latest_content)
    show "(is_dict con \<and> truthy con \<longrightarrow> ?res = con)
        \<and> (\<forall>s v. con = JStr s \<and> s \<noteq> [] \<and> parse s = Inr v \<longrightarrow> ?res = v)
        \<and> (\<forall>s e. con = JStr s \<and> parse s = Inl e \<longrightarrow> ?res = JNull)
        \<and> (\<not> is_dict con \<and> (\<forall>s. con \<noteq> JStr s) \<longrightarrow> ?res = JNull)"
      unfolding eq by (auto simp: truthy_not_dict_loads)
  qed
  have c5: "?res \<noteq> JNull \<longrightarrow>
        (\<exists>body cin con.
           ?r = Response 200 (Inr (JObj body))
         \<and> map_of body ''m2m:cin'' = Some (JObj cin)
         \<and> map_of cin ''con'' = Some con
         \<and> truthy con
         \<and> ((is_dict con \<and> ?res = con) \<or> (\<exists>s. con = JStr s \<and> parse s = Inr ?res)))"
    using get_latest_success_maps [of parse http_get container_url origin] by blast
  from c1 c2 c3 c4 c5 show ?thesis
    by (intro conjI)
qed

theorem get_latest_cin_json_result_witness:
  "get_latest_cin_json example_parse (example_server 2) ''http://h/models'' RASPI_ORIGIN
     = JObj [(''mlModelPath'', JStr ''/home/seslab/minifarm/best.pt'')]
   \<and> get_latest_cin_json example_parse (example_server 3) ''http://h/models'' RASPI_ORIGIN
     = JObj [(''mlModelPath'', JStr ''/home/seslab/minifarm/last.pt'')]
   \<and> get_latest_cin_json example_parse (\<lambda>request. Response 404 (Inl JSONDecodeError))
        ''http://h/models'' RASPI_ORIGIN = JNull
   \<and> get_latest_cin_json example_parse (\<lambda>request. Raised Timeout) ''http://h/models'' RASPI_ORIGIN
     = JNull
   \<and> get_latest_cin_json example_parse (\<lambda>request. cin_response (JStr ''{oops''))
        ''http://h/models'' RASPI_ORIGIN = JNull"
proof -
  let ?best = "JObj [(''mlModelPath'', JStr ''/home/seslab/minifarm/best.pt'')]"
  let ?last = "''{\"mlModelPath\": \"/home/seslab/minifarm/last.pt\"}''"
  have p: "example_parse ?last = Inr (JObj [(''mlModelPath'', JStr ''/home/seslab/minifarm/last.pt'')])"
    by (simp add: example_parse_def)
  have q: "example_parse ''{oops'' = Inl JSONDecodeError"
    by (simp add: example_parse_def)
  have s2: "example_server 2 (get_request ''http://h/models'' RASPI_ORIGIN)
      = Response 200 (Inr (JObj [(''m2m:cin'', JObj [(''con'', ?best)])]))
      \<and> map_of [(''m2m:cin'', JObj [(''con'', ?best)])] ''m2m:cin'' = Some (JObj [(''con'', ?best)])
      \<and> map_of [(''con'', ?best)] ''con'' = Some ?best"
    by (simp add: example_server_def cin_response_def)
  have s3: "example_server 3 (get_request ''http://h/models'' RASPI_ORIGIN)
      = Response 200 (Inr (JObj [(''m2m:cin'', JObj [(''con'', JStr ?last)])]))
      \<and> map_of [(''m2m:cin'', JObj [(''con'', JStr ?last)])] ''m2m:cin'' = Some (JObj [(''con'', JStr ?last)])
      \<and> map_of [(''con'', JStr ?last)] ''con'' = Some (JStr ?last)"
    by (simp add: example_server_def cin_response_def)
  have s5: "cin_response (JStr ''{oops'')
      = Response 200 (Inr (JObj [(''m2m:cin'', JObj [(''con'', JStr ''{oops'')])]))
      \<and> map_of [(''m2m:cin'', JObj [(''con'', JStr ''{oops'')])] ''m2m:cin'' = Some (JObj [(''con'', JStr ''{oops'')])
      \<and> map_of [(''con'', JStr ''{oops'')] ''con'' = Some (JStr ''{oops'')"
    by (simp add: cin_response_def)
  have w1: "get_latest_cin_json example_parse (example_server 2) ''http://h/models'' RASPI_ORIGIN = ?best"
    using get_latest_cin_json_result
            [of "example_server 2" "''http://h/models''" RASPI_ORIGIN example_parse,
             THEN conjunct2, THEN conjunct2, THEN conjunct2, THEN conjunct1, rule_format, OF s2,
             THEN conjunct1]
    by simp
  have w2: "get_latest_cin_json example_parse (example_server 3) ''http://h/models'' RASPI_ORIGIN
     = JObj [(''mlModelPath'', JStr ''/home/seslab/minifarm/last.pt'')]"
    using get_latest_cin_json_result
            [of "example_server 3" "''http://h/models''" RASPI_ORIGIN example_parse,
             THEN conjunct2, THEN conjunct2, THEN conjunct2, THEN conjunct1, rule_format, OF s3,
             THEN conjunct2, THEN conjunct1, rule_format, of ?last] p
    by simp
  have w3: "get_latest_cin_json example_parse (\<lambda>request. Response 404 (Inl JSONDecodeError))
        ''http://h/models'' RASPI_ORIGIN = JNull"
    using get_latest_cin_json_result
            [of "\<lambda>request. Response 404 (Inl JSONDecodeError)" "''http://h/models''"
              RASPI_ORIGIN example_parse, THEN conjunct2, THEN conjunct1, rule_format,
              of 404 "Inl JSONDecodeError"]
    by simp
  have w4: "get_latest_cin_json example_parse (\<lambda>request. Raised Timeout) ''http://h/models''
        RASPI_ORIGIN = JNull"
    using get_latest_cin_json_result
            [of "\<lambda>request. Raised Timeout" "''http://h/models''" RASPI_ORIGIN example_parse,
             THEN conjunct1, rule_format, of Timeout]
    by simp
  have w5: "get_latest_cin_json example_parse (\<lambda>request. cin_response (JStr ''{oops''))
        ''http://h/models'' RASPI_ORIGIN = JNull"
    using get_latest_cin_json_result
            [of "\<lambda>request. cin_response (JStr ''{oops'')" "''http://h/models''"
              RASPI_ORIGIN example_parse,
             THEN conjunct2, THEN conjunct2, THEN conjunct2, THEN conjunct1, rule_format, OF s5,
             THEN conjunct2, THEN conjunct2, THEN conjunct1, rule_format, of "''{oops''" JSONDecodeError] q
    by simp
  from w1 w2 w3 w4 w5 show ?thesis
    by (intro conjI)
qed

section \<open>Config resolution\<close>




section \<open>Empty content\<close>

lemma get_latest_falsy_content:
  assumes "http_get (get_request container_url origin) = Response 200 (Inr (JObj body))"
    and "map_of body ''m2m:cin'' = Some (JObj cin)"
    and "map_of cin ''con'' = Some con"
    and "\<not> truthy con"
  shows "get_latest_cin_json parse http_get container_url origin = JNull"
  using assms by (simp add: get_latest_content)

text \<open>
  Claim C10. A 200 response whose content field \<open>con\<close> is present but falsy (the empty
  string, the empty object, JSON null, and likewise \<open>0\<close>, \<open>false\<close> and the empty list)
  makes \<open>get_latest_cin_json\<close> return \<open>None\<close>, not an empty payload. So a read answered
  with such a record makes the config resolution return \<open>None\<close>, as a read answered with
  404 does.
\<close>

theorem empty_content_is_failure:
  "(http_get (get_request container_url origin) = Response 200 (Inr (JObj body))
      \<and> map_of body ''m2m:cin'' = Some (JObj cin)
      \<and> map_of cin ''con'' = Some con
      \<and> (con = JStr [] \<or> con = JObj [] \<or> con = JNull \<or> \<not> truthy con)
    \<longrightarrow> get_latest_cin_json parse http_get container_url origin = JNull)
   \<and> (i < 4
      \<and> (\<forall>request. \<exists>body cin con.
            server i request = Response 200 (Inr (JObj body))
          \<and> map_of body ''m2m:cin'' = Some (JObj cin)
          \<and> map_of cin ''con'' = Some con
          \<and> \<not> truthy con)
    \<longrightarrow> load_config_from_cse py_str parse server = JNull)
   \<and> (i < 4 \<and> (\<forall>request. \<exists>r_json. server i request = Response 404 r_json)
    \<longrightarrow> load_config_from_cse py_str parse server = JNull)"
proof (intro conjI impI)
  assume a: "http_get (get_request container_url origin) = Response 200 (Inr (JObj body))
      \<and> map_of body ''m2m:cin'' = Some (JObj cin)
      \<and> map_of cin ''con'' = Some con
      \<and> (con = JStr [] \<or> con = JObj [] \<or> con = JNull \<or> \<not> truthy con)"
  then have "\<not> truthy con" by auto
  with a show "get_latest_cin_json parse http_get container_url origin = JNull"
    by (simp add: get_latest_falsy_content)
next
  assume a: "i < 4
      \<and> (\<forall>request. \<exists>body cin con.
            server i request = Response 200 (Inr (JObj body))
          \<and> map_of body ''m2m:cin'' = Some (JObj cin)
          \<and> map_of cin ''con'' = Some con
          \<and> \<not> truthy con)"
  have "\<forall>container_url. \<not> truthy (get_latest_cin_json parse (server i) container_url RASPI_ORIGIN)"
  proof
    fix container_url
    from a obtain body cin con where
      "server i (get_request container_url RASPI_ORIGIN) = Response 200 (Inr (JObj body))"
      "map_of body ''m2m:cin'' = Some (JObj cin)" "map_of cin ''con'' = Some con" "\<not> truthy con"
      by blast
    then have "get_latest_cin_json parse (server i) container_url RASPI_ORIGIN = JNull"
      by (rule get_latest_falsy_content)
    then show "\<not> truthy (get_latest_cin_json parse (server i) container_url RASPI_ORIGIN)"
      by simp
  qed
  moreover from a have "i < 4" by simp
  ultimately show "load_config_from_cse py_str parse server = JNull"
    by (rule load_config_read_fails [rotated])
next
  assume a: "i < 4 \<and> (\<forall>request. \<exists>r_json. server i request = Response 404 r_json)"
  have "\<forall>container_url. \<not> truthy (get_latest_cin_json parse (server i) container_url RASPI_ORIGIN)"
  proof
    fix container_url
    from a obtain r_json where
      "server i (get_request container_url RASPI_ORIGIN) = Response 404 r_json"
      by blast
    then have "get_latest_cin_json parse (server i) container_url RASPI_ORIGIN = JNull"
      by (rule get_latest_not_200) simp
    then show "\<not> truthy (get_latest_cin_json parse (server i) container_url RASPI_ORIGIN)"
      by simp
  qed
  moreover from a have "i < 4" by simp
  ultimately show "load_config_from_cse py_str parse server = JNull"
    by (rule load_config_read_fails [rotated])
qed

theorem empty_content_is_failure_witness:
  "get_latest_cin_json example_parse (\<lambda>request. cin_response (JStr [])) ''http://h/c'' RASPI_ORIGIN = JNull
   \<and> get_latest_cin_json example_parse (\<lambda>request. cin_response (JObj [])) ''http://h/c'' RASPI_ORIGIN = JNull
   \<and> get_latest_cin_json example_parse (\<lambda>request. cin_response JNull) ''http://h/c'' RASPI_ORIGIN = JNull
   \<and> load_config_from_cse (\<lambda>v. []) example_parse
        (example_server (1 := \<lambda>request. cin_response (JStr []))) = JNull
   \<and> load_config_from_cse (\<lambda>v. []) example_parse
        (example_server (1 := \<lambda>request. Response 404 (Inl JSONDecodeError))) = JNull"
proof -
  have r: "\<And>con. cin_response con = Response 200 (Inr (JObj [(''m2m:cin'', JObj [(''con'', con)])]))
      \<and> map_of [(''m2m:cin'', JObj [(''con'', con)])] ''m2m:cin'' = Some (JObj [(''con'', con)])
      \<and> map_of [(''con'', con)] ''con'' = Some con"
    by (simp add: cin_response_def)
  have w1: "get_latest_cin_json example_parse (\<lambda>request. cin_response (JStr [])) ''http://h/c'' RASPI_ORIGIN = JNull"
    using empty_content_is_failure
      [of "\<lambda>request. cin_response (JStr [])" "''http://h/c''" RASPI_ORIGIN
          "[(''m2m:cin'', JObj [(''con'', JStr [])])]" "[(''con'', JStr [])]" "JStr []" example_parse,
       THEN conjunct1] r [of "JStr []"]
    by simp
  have w2: "get_latest_cin_json example_parse (\<lambda>request. cin_response (JObj [])) ''http://h/c'' RASPI_ORIGIN = JNull"
    using empty_content_is_failure
      [of "\<lambda>request. cin_response (JObj [])" "''http://h/c''" RASPI_ORIGIN
          "[(''m2m:cin'', JObj [(''con'', JObj [])])]" "[(''con'', JObj [])]" "JObj []" example_parse,
       THEN conjunct1] r [of "JObj []"]
    by simp
  have w3: "get_latest_cin_json example_parse (\<lambda>request. cin_response JNull) ''http://h/c'' RASPI_ORIGIN = JNull"
    using empty_content_is_failure
      [of "\<lambda>request. cin_response JNull" "''http://h/c''" RASPI_ORIGIN
          "[(''m2m:cin'', JObj [(''con'', JNull)])]" "[(''con'', JNull)]" JNull example_parse,
       THEN conjunct1] r [of JNull]
    by simp
  have h4: "(1::nat) < 4
      \<and> (\<forall>request. \<exists>body cin con.
            (example_server (1 := \<lambda>request. cin_response (JStr []))) 1 request = Response 200 (Inr (JObj body))
          \<and> map_of body ''m2m:cin'' = Some (JObj cin)
          \<and> map_of cin ''con'' = Some con
          \<and> \<not> truthy con)"
    using r [of "JStr []"] by (auto intro!: exI [of _ "JStr []"])
  have w4: "load_config_from_cse (\<lambda>v. []) example_parse
        (example_server (1 := \<lambda>request. cin_response (JStr []))) = JNull"
    using empty_content_is_failure
      [where i = 1 and server = "example_server (1 := \<lambda>request. cin_response (JStr []))"
         and py_str = "\<lambda>v. []" and parse = example_parse,
       THEN conjunct2, THEN conjunct1, THEN mp, OF h4] .
  have h5: "(1::nat) < 4 \<and> (\<forall>request. \<exists>r_json.
      (example_server (1 := \<lambda>request. Response 404 (Inl JSONDecodeError))) 1 request = Response 404 r_json)"
    by simp
  have w5: "load_config_from_cse (\<lambda>v. []) example_parse
        (example_server (1 := \<lambda>request. Response 404 (Inl JSONDecodeError))) = JNull"
    using empty_content_is_failure
      [where i = 1 and server = "example_server (1 := \<lambda>request. Response 404 (Inl JSONDecodeError))"
         and py_str = "\<lambda>v. []" and parse = example_parse,
       THEN conjunct2, THEN conjunct2, THEN mp, OF h5] .
  from w1 w2 w3 w4 w5 show ?thesis
    by (intro conjI)
qed

section \<open>Upload\<close>

lemma all_success_post_track:
  "all_success (post_track http_post t request st) =
     (all_success st \<and> (\<exists>r_json. http_post t request = Response 201 r_json))"
  by (cases "http_post t request") (auto simp: post_track_def)

lemma posts_post_track:
  "posts (post_track http_post t request st) = posts st @ [(t, request)]"
  by (cases "http_post t request") (auto simp: post_track_def)

lemma posts_send_to_tinyiot:
  "posts (send_to_tinyiot env http_post species_data health_data) =
     (if species_data \<noteq> [] then [(Species, species_request env species_data)] else [])
     @ (if health_data \<noteq> [] then [(Health, health_request env health_data)] else [])"
  by (simp add: send_to_tinyiot_def Let_def posts_post_track)

lemma all_success_send_to_tinyiot:
  "all_success (send_to_tinyiot env http_post species_data health_data) =
     ((species_data \<noteq> [] \<longrightarrow>
         (\<exists>r_json. http_post Species (species_request env species_data) = Response 201 r_json))
      \<and> (health_data \<noteq> [] \<longrightarrow>
         (\<exists>r_json. http_post Health (health_request env health_data) = Response 201 r_json)))"
  by (simp add: send_to_tinyiot_def Let_def all_success_post_track)

text \<open>
  Claim C2. \<open>_send_to_tinyiot\<close> returns true exactly when every attempted track was
  answered with 201. A track is attempted exactly when its map is non-empty: the POSTs
  issued are the species request (if the species map is non-empty) followed by the
  health request (if the health map is non-empty), whatever the species POST returned,
  and nothing is undone. With both maps non-empty, species answered 201 and health
  answered 500, the call returns false and the species record is the only one created.
\<close>

theorem upload_all_or_false:
  "(all_success (send_to_tinyiot env http_post species_data health_data) \<longleftrightarrow>
      (species_data \<noteq> [] \<longrightarrow>
         (\<exists>r_json. http_post Species (species_request env species_data) = Response 201 r_json))
      \<and> (health_data \<noteq> [] \<longrightarrow>
         (\<exists>r_json. http_post Health (health_request env health_data) = Response 201 r_json)))
   \<and> posts (send_to_tinyiot env http_post species_data health_data) =
       (if species_data \<noteq> [] then [(Species, species_request env species_data)] else [])
       @ (if health_data \<noteq> [] then [(Health, health_request env health_data)] else [])
   \<and> (species_data \<noteq> [] \<and> health_data \<noteq> []
       \<and> http_post Species (species_request env species_data) = Response 201 j1
       \<and> http_post Health (health_request env health_data) = Response 500 j2
      \<longrightarrow> \<not> all_success (send_to_tinyiot env http_post species_data health_data)
          \<and> created http_post (posts (send_to_tinyiot env http_post species_data health_data))
              = [(Species, species_request env species_data)])"
  by (simp add: all_success_send_to_tinyiot posts_send_to_tinyiot created_def)

theorem upload_all_or_false_witness:
  "[(''0'', ''basil'')] \<noteq> [] \<and> [(''0'', ''basil_healthy'')] \<noteq> []
   \<and> example_post Species (species_request example_env [(''0'', ''basil'')]) = Response 201 (Inr JNull)
   \<and> example_post Health (health_request example_env [(''0'', ''basil_healthy'')]) = Response 500 (Inr JNull)
   \<and> \<not> all_success (send_to_tinyiot example_env example_post [(''0'', ''basil'')] [(''0'', ''basil_healthy'')])
   \<and> created example_post
        (posts (send_to_tinyiot example_env example_post [(''0'', ''basil'')] [(''0'', ''basil_healthy'')]))
       = [(Species, species_request example_env [(''0'', ''basil'')])]
   \<and> all_success (send_to_tinyiot example_env example_post [(''0'', ''basil'')] [])
   \<and> posts (send_to_tinyiot example_env example_post [(''0'', ''basil'')] [])
       = [(Species, species_request example_env [(''0'', ''basil'')])]"
proof -
  have s: "example_post Species (species_request example_env [(''0'', ''basil'')]) = Response 201 (Inr JNull)"
    and h: "example_post Health (health_request example_env [(''0'', ''basil_healthy'')]) = Response 500 (Inr JNull)"
    by (simp_all add: example_post_def)
  have pre: "[(''0'', ''basil'')] \<noteq> [] \<and> [(''0'', ''basil_healthy'')] \<noteq> []
       \<and> example_post Species (species_request example_env [(''0'', ''basil'')]) = Response 201 (Inr JNull)
       \<and> example_post Health (health_request example_env [(''0'', ''basil_healthy'')]) = Response 500 (Inr JNull)"
    using s h by simp
  note T = upload_all_or_false [of example_env example_post "[(''0'', ''basil'')]" "[(''0'', ''basil_healthy'')]"
              "Inr JNull" "Inr JNull"]
  note U = upload_all_or_false [of example_env example_post "[(''0'', ''basil'')]" "[]" "Inr JNull" "Inr JNull"]
  have w1: "\<not> all_success (send_to_tinyiot example_env example_post [(''0'', ''basil'')] [(''0'', ''basil_healthy'')])
   \<and> created example_post
        (posts (send_to_tinyiot example_env example_post [(''0'', ''basil'')] [(''0'', ''basil_healthy'')]))
       = [(Species, species_request example_env [(''0'', ''basil'')])]"
    using T [THEN conjunct2, THEN conjunct2, THEN mp, OF pre] .
  have w2: "all_success (send_to_tinyiot example_env example_post [(''0'', ''basil'')] [])"
    using U [THEN conjunct1] s by simp
  have w3: "posts (send_to_tinyiot example_env example_post [(''0'', ''basil'')] [])
       = [(Species, species_request example_env [(''0'', ''basil'')])]"
    using U [THEN conjunct2, THEN conjunct1] by simp
  from pre w1 w2 w3 show ?thesis
    by simp
qed

section \<open>Upload payload\<close>

lemma cin_field_species_request:
  "cin_field ''con'' (species_request env species_data) = JStr ''data''"
  "cin_field ''lbl'' (species_request env species_data)
     = JArr [JStr (dumps_envelope (timestamp env) species_data)]"
  by (simp_all add: cin_field_def species_request_def cin_payload_def lookup_or_def)

lemma cin_field_health_request:
  "cin_field ''con'' (health_request env health_data) = JStr ''data''"
  "cin_field ''lbl'' (health_request env health_data)
     = JArr [JStr (dumps_envelope (timestamp env) health_data)]"
  by (simp_all add: cin_field_def health_request_def cin_payload_def lookup_or_def)

lemma dumps_envelope_example:
  "dumps_envelope ''2024-05-01 09:00:00'' [(''0'', ''basil'')]
     = ''{\"timestamp\": \"2024-05-01 09:00:00\", \"data\": {\"0\": \"basil\"}}''"
  by code_simp

text \<open>
  Claim C1, as stated, fails: the content field \<open>con\<close> of the posted \<open>m2m:cin\<close> is the
  constant string \<open>data\<close>, not the serialized envelope.
\<close>

theorem upload_content_field_counterexample:
  "posts (send_to_tinyiot example_env example_post [(''0'', ''basil'')] [])
     = [(Species, species_request example_env [(''0'', ''basil'')])]
   \<and> cin_field ''con'' (species_request example_env [(''0'', ''basil'')]) = JStr ''data''
   \<and> cin_field ''con'' (species_request example_env [(''0'', ''basil'')])
       \<noteq> JStr (dumps_envelope (timestamp example_env) [(''0'', ''basil'')])"
proof -
  have "posts (send_to_tinyiot example_env example_post [(''0'', ''basil'')] [])
       = [(Species, species_request example_env [(''0'', ''basil'')])]"
    by (simp add: send_to_tinyiot_def Let_def post_track_def example_post_def)
  moreover have "timestamp example_env = ''2024-05-01 09:00:00''"
    by (simp add: example_env_def)
  ultimately show ?thesis
    by (simp add: cin_field_species_request dumps_envelope_example)
qed

text \<open>
  Claim C1, amended. For every non-empty species or health map the upload POSTs, to
  the URL of that track, a request whose \<open>m2m:cin\<close> payload carries the serialized
  envelope (timestamp and data) as the single element of the label list \<open>lbl\<close>; the
  content field \<open>con\<close> is the constant string \<open>data\<close>.
\<close>

theorem upload_envelope_in_labels:
  "(species_data \<noteq> [] \<longrightarrow>
      (Species, species_request env species_data)
        \<in> set (posts (send_to_tinyiot env http_post species_data health_data))
      \<and> url (species_request env species_data) = url_species env
      \<and> json_payload (species_request env species_data) =
          Some (JObj [(''m2m:cin'',
            JObj [(''con'', JStr ''data''),
                  (''lbl'', JArr [JStr (dumps_envelope (timestamp env) species_data)])])])
      \<and> cin_field ''lbl'' (species_request env species_data)
          = JArr [JStr (dumps_envelope (timestamp env) species_data)]
      \<and> cin_field ''con'' (species_request env species_data) = JStr ''data'')
   \<and> (health_data \<noteq> [] \<longrightarrow>
      (Health, health_request env health_data)
        \<in> set (posts (send_to_tinyiot env http_post species_data health_data))
      \<and> url (health_request env health_data) = url_health env
      \<and> json_payload (health_request env health_data) =
          Some (JObj [(''m2m:cin'',
            JObj [(''con'', JStr ''data''),
                  (''lbl'', JArr [JStr (dumps_envelope (timestamp env) health_data)])])])
      \<and> cin_field ''lbl'' (health_request env health_data)
          = JArr [JStr (dumps_envelope (timestamp env) health_data)]
      \<and> cin_field ''con'' (health_request env health_data) = JStr ''data'')
   \<and> dumps_envelope (timestamp env) species_data =
       ''{'' @ dumps_str ''timestamp'' @ '': '' @ dumps_str (timestamp env) @ '', ''
            @ dumps_str ''data'' @ '': '' @ dumps_dict species_data @ ''}''"
proof -
  have p1: "species_data \<noteq> [] \<longrightarrow> (Species, species_request env species_data)
        \<in> set (posts (send_to_tinyiot env http_post species_data health_data))"
    by (simp add: posts_send_to_tinyiot)
  have p2: "health_data \<noteq> [] \<longrightarrow> (Health, health_request env health_data)
        \<in> set (posts (send_to_tinyiot env http_post species_data health_data))"
    by (simp add: posts_send_to_tinyiot)
  have u1: "url (species_request env species_data) = url_species env"
    and u2: "url (health_request env health_data) = url_health env"
    by (simp_all add: species_request_def health_request_def)
  have j1: "json_payload (species_request env species_data) =
          Some (JObj [(''m2m:cin'',
            JObj [(''con'', JStr ''data''),
                  (''lbl'', JArr [JStr (dumps_envelope (timestamp env) species_data)])])])"
    by (simp add: species_request_def cin_payload_def)
  have j2: "json_payload (health_request env health_data) =
          Some (JObj [(''m2m:cin'',
            JObj [(''con'', JStr ''data''),
                  (''lbl'', JArr [JStr (dumps_envelope (timestamp env) health_data)])])])"
    by (simp add: health_request_def cin_payload_def)
  have d: "dumps_envelope (timestamp env) species_data =
       ''{'' @ dumps_str ''timestamp'' @ '': '' @ dumps_str (timestamp env) @ '', ''
            @ dumps_str ''data'' @ '': '' @ dumps_dict species_data @ ''}''"
    by (simp add: dumps_envelope_def)
  from p1 p2 u1 u2 j1 j2 d cin_field_species_request [of env species_data]
    cin_field_health_request [of env health_data]
  show ?thesis
    by blast
qed

theorem upload_envelope_in_labels_witness:
  "[(''0'', ''basil'')] \<noteq> []
   \<and> (Species, species_request example_env [(''0'', ''basil'')])
        \<in> set (posts (send_to_tinyiot example_env example_post [(''0'', ''basil'')] []))
   \<and> cin_field ''lbl'' (species_request example_env [(''0'', ''basil'')])
       = JArr [JStr ''{\"timestamp\": \"2024-05-01 09:00:00\", \"data\": {\"0\": \"basil\"}}'']
   \<and> cin_field ''con'' (species_request example_env [(''0'', ''basil'')]) = JStr ''data''"
proof -
  have ts: "timestamp example_env = ''2024-05-01 09:00:00''"
    by (simp add: example_env_def)
  have ne: "[(''0'', ''basil'')] \<noteq> ([] :: (string \<times> string) list)"
    by simp
  note T = upload_envelope_in_labels [of "[(''0'', ''basil'')]" example_env example_post "[]",
             THEN conjunct1, THEN mp, OF ne]
  from T ts dumps_envelope_example show ?thesis
    by simp
qed

end
